theory Spec2Isabelle
  imports Complex_Main "HOL-Library.Sublist"
begin

section \<open>Python values and built-ins used by predict.py\<close>

text \<open>
  Exceptions are values, in the three families the handlers of predict.py tell apart.
  \<open>ImportError m\<close> stands for ImportError and its subclasses, \<open>Exception m\<close> for
  every other subclass of Exception, and \<open>BaseException m\<close> for what is not a
  subclass of Exception (KeyboardInterrupt, SystemExit, GeneratorExit); \<open>m\<close> is what
  \<open>str(e)\<close> returns.
\<close>

datatype exn = ImportError string | Exception string | BaseException string

fun str_exn :: "exn \<Rightarrow> string" where
  "str_exn (ImportError m) = m"
| "str_exn (Exception m) = m"
| "str_exn (BaseException m) = m"

text \<open>\<open>except Exception\<close> catches the first two families, ImportError among them.\<close>

fun is_Exception :: "exn \<Rightarrow> bool" where
  "is_Exception (ImportError m) = True"
| "is_Exception (Exception m) = True"
| "is_Exception (BaseException m) = False"

text \<open>
  Values read by \<open>json.load\<close> and written by \<open>json.dumps\<close>. A JSON object is an
  association list; \<open>map_of\<close> reads it. Strings are byte strings: a character
  beyond ASCII is its UTF-8 encoding.
\<close>

datatype json =
    JNull
  | JBool bool
  | JInt int
  | JFloat rat
  | JStr string
  | JList "json list"
  | JObj "(string \<times> json) list"

text \<open>\<open>d.get(k, default)\<close>\<close>

definition dict_get :: "('k \<rightharpoonup> 'v) \<Rightarrow> 'k \<Rightarrow> 'v \<Rightarrow> 'v" where
  "dict_get d k dflt = (case d k of None \<Rightarrow> dflt | Some v \<Rightarrow> v)"

text \<open>\<open>sub in s\<close> on strings\<close>

fun str_contains :: "string \<Rightarrow> string \<Rightarrow> bool" where
  "str_contains sub [] = (sub = [])"
| "str_contains sub (c # cs) = (prefix sub (c # cs) \<or> str_contains sub cs)"

text \<open>
  \<open>s.split(sep)\<close> for a non-empty separator: the string is scanned from the left,
  every occurrence of the separator found closes the current part and the scan goes on
  behind it. \<open>cur\<close> is the part being collected.
\<close>

function split_from :: "string \<Rightarrow> string \<Rightarrow> string \<Rightarrow> string list" where
  "split_from sep cur s =
     (if s = [] then [cur]
      else if sep \<noteq> [] \<and> prefix sep s then cur # split_from sep [] (drop (length sep) s)
      else split_from sep (cur @ [hd s]) (tl s))"
  by pat_completeness auto
termination
  by (relation "measure (\<lambda>(sep, cur, s). length s)") (auto simp: neq_Nil_conv)

declare split_from.simps [simp del]

definition str_split :: "string \<Rightarrow> string \<Rightarrow> string list" where
  "str_split s sep = split_from sep [] s"

text \<open>\<open>s.replace("_", " ")\<close>: a one-character pattern, so every occurrence is replaced.\<close>

definition replace_char :: "char \<Rightarrow> char \<Rightarrow> string \<Rightarrow> string" where
  "replace_char a b s = map (\<lambda>c. if c = a then b else c) s"

text \<open>
  \<open>s.lower()\<close> on the ASCII letters. No character outside ASCII lowers to an ASCII
  letter of the word "healthy", the only use \<open>lower\<close> is put to.
\<close>

definition lower_char :: "char \<Rightarrow> char" where
  "lower_char c =
     (let n = (of_char c :: nat)
      in if of_char CHR ''A'' \<le> n \<and> n \<le> of_char CHR ''Z'' then char_of (n + 32) else c)"

definition str_lower :: "string \<Rightarrow> string" where
  "str_lower s = map lower_char s"

text \<open>\<open>xs[i]\<close> on a sequence: a negative index counts from the end.\<close>

definition getitem :: "'a list \<Rightarrow> int \<Rightarrow> exn + 'a" where
  "getitem xs i =
     (if 0 \<le> i \<and> i < int (length xs) then Inr (xs ! nat i)
      else if - int (length xs) \<le> i \<and> i < 0 then Inr (xs ! nat (int (length xs) + i))
      else Inl (Exception ''index out of range''))"

text \<open>
  \<open>round(x, n)\<close>: to \<open>n\<close> decimal places, an exact tie going to the even neighbour.
  Scores are rationals here; the binary representation of a float is not modelled.
\<close>

definition py_round :: "rat \<Rightarrow> nat \<Rightarrow> rat" where
  "py_round x n =
     (let s = x * 10 ^ n; f = \<lfloor>s\<rfloor>; d = s - of_int f
      in of_int (if d < 1 / 2 then f else if 1 / 2 < d then f + 1
                 else if even f then f else f + 1) / 10 ^ n)"

text \<open>Decimal digits of a natural number, and \<open>str\<close> of an integer.\<close>

fun digits :: "nat \<Rightarrow> string" where
  "digits n =
     (if n < 10 then [char_of (48 + n)]
      else digits (n div 10) @ [char_of (48 + n mod 10)])"

declare digits.simps [simp del]

definition str_int :: "int \<Rightarrow> string" where
  "str_int i = (if i < 0 then CHR ''-'' # digits (nat (- i)) else digits (nat i))"

text \<open>
  \<open>str\<close> of a float that has at most one decimal place, as \<open>round(x, 1)\<close> returns
  it: the integer part, a point and one digit.
\<close>

definition str_float1 :: "rat \<Rightarrow> string" where
  "str_float1 x =
     (let t = \<lfloor>\<bar>x\<bar> * 10\<rfloor>
      in (if x < 0 then ''-'' else '''') @ digits (nat (t div 10)) @ ''.''
         @ digits (nat (t mod 10)))"

section \<open>numpy operations on the score vector\<close>

text \<open>\<open>np.max\<close>: raises on an empty array.\<close>

fun np_max :: "rat list \<Rightarrow> exn + rat" where
  "np_max [] =
     Inl (Exception ''zero-size array to reduction operation maximum which has no identity'')"
| "np_max (x # xs) = Inr (fold max xs x)"

text \<open>\<open>np.argmax\<close>: the first index that holds the maximum.\<close>

fun np_argmax :: "rat list \<Rightarrow> exn + int" where
  "np_argmax [] = Inl (Exception ''attempt to get argmax of an empty sequence'')"
| "np_argmax (x # xs) =
     Inr (int (length (takeWhile (\<lambda>y. y \<noteq> fold max xs x) (x # xs))))"

text \<open>
  \<open>predictions.argsort()\<close>: the indices in ascending order of score. numpy's default
  sort kind is not stable, so the order it leaves equal scores in is not fixed by the
  code. The parameter \<open>tie\<close> stands for that choice: the indices are first listed as
  \<open>tie\<close> names them (an index out of range or repeated is dropped, the indices
  \<open>tie\<close> does not name follow in index order) and this list is then sorted by score
  with a stable sort. Every ascending arrangement of the indices is the result for some
  \<open>tie\<close>, and nothing else is; \<open>tie = []\<close> is the stable sort.
\<close>

definition tie_order :: "nat list \<Rightarrow> nat \<Rightarrow> nat list" where
  "tie_order tie n =
     remdups (filter (\<lambda>i. i < n) tie) @ filter (\<lambda>i. i \<notin> set tie) [0..<n]"

definition argsort :: "nat list \<Rightarrow> rat list \<Rightarrow> int list" where
  "argsort tie xs = map int (sort_key (\<lambda>i. xs ! i) (tie_order tie (length xs)))"

text \<open>\<open>xs[-5:]\<close>: the last five elements, all of them when there are fewer.\<close>

definition last5 :: "'a list \<Rightarrow> 'a list" where
  "last5 xs = drop (length xs - 5) xs"

text \<open>Line 219: \<open>predictions.argsort()[-5:][::-1]\<close>\<close>

definition top_k_indices :: "nat list \<Rightarrow> rat list \<Rightarrow> int list" where
  "top_k_indices tie predictions = rev (last5 (argsort tie predictions))"

section \<open>Top-k selection (predict, lines 219-234)\<close>

type_synonym class_names = "int \<rightharpoonup> string"

text \<open>\<open>class_name not in ("PlantVillage", "Unknown")\<close>\<close>

definition informative :: "string \<Rightarrow> bool" where
  "informative class_name \<longleftrightarrow> class_name \<notin> set [''PlantVillage'', ''Unknown'']"

text \<open>
  The \<open>for idx in top_k_indices\<close> loop. It starts from \<open>predicted_class_idx = -1\<close>,
  \<open>confidence = 0.0\<close> and leaves at the first candidate whose class name passes.
\<close>

fun top_k_loop :: "class_names \<Rightarrow> rat list \<Rightarrow> int list \<Rightarrow> exn + (int \<times> rat)" where
  "top_k_loop cn predictions [] = Inr (- 1, 0)"
| "top_k_loop cn predictions (idx # rest) =
     (let class_name = dict_get cn idx ''Unknown''
      in if informative class_name
         then (case getitem predictions idx of
                 Inl e \<Rightarrow> Inl e
               | Inr c \<Rightarrow> Inr (idx, c))
         else top_k_loop cn predictions rest)"

text \<open>
  Lines 219-232: the loop, then the fall-back to the global argmax when the loop left
  \<open>predicted_class_idx\<close> at \<open>-1\<close>. The result is \<open>(predicted_class_idx, confidence)\<close>.
\<close>

definition select_class ::
  "nat list \<Rightarrow> class_names \<Rightarrow> rat list \<Rightarrow> exn + (int \<times> rat)" where
  "select_class tie cn predictions =
     (case top_k_loop cn predictions (top_k_indices tie predictions) of
        Inl e \<Rightarrow> Inl e
      | Inr (predicted_class_idx, confidence) \<Rightarrow>
          if predicted_class_idx = - 1
          then (case np_argmax predictions of
                  Inl e \<Rightarrow> Inl e
                | Inr i \<Rightarrow> (case np_max predictions of
                             Inl e \<Rightarrow> Inl e
                           | Inr m \<Rightarrow> Inr (i, m)))
          else Inr (predicted_class_idx, confidence))"

section \<open>Enrichment with disease info (predict, lines 241-248)\<close>

text \<open>
  \<open>full_disease_info\<close> maps a class label to its record, a JSON object of fields;
  the value of a field is whatever JSON the file holds.
\<close>

type_synonym disease_info = "string \<rightharpoonup> (string \<times> json) list"

text \<open>
  The expression of lines 247 and 248, with \<open>i = 0\<close> for the crop and \<open>i = 1\<close> for the
  disease:
  \<open>predicted_class.split("___")[i].replace("_", " ") if "___" in predicted_class
  else predicted_class\<close>
\<close>

definition label_part :: "string \<Rightarrow> int \<Rightarrow> exn + string" where
  "label_part predicted_class i =
     (if str_contains ''___'' predicted_class
      then (case getitem (str_split predicted_class ''___'') i of
              Inl e \<Rightarrow> Inl e
            | Inr part \<Rightarrow> Inr (replace_char CHR ''_'' CHR '' '' part))
      else Inr predicted_class)"

text \<open>
  Lines 243-248: \<open>(crop_name, disease_name)\<close>. A record that is not empty is read with
  the default "Unknown"; the label is taken apart only when \<open>disease_data\<close> is empty.
\<close>

definition resolve_names :: "(string \<times> json) list \<Rightarrow> string \<Rightarrow> exn + (json \<times> json)" where
  "resolve_names disease_data predicted_class =
     (if disease_data \<noteq> []
      then Inr (dict_get (map_of disease_data) ''crop'' (JStr ''Unknown''),
                dict_get (map_of disease_data) ''disease'' (JStr ''Unknown''))
      else (case label_part predicted_class 0 of
              Inl e \<Rightarrow> Inl e
            | Inr crop_name \<Rightarrow>
                (case label_part predicted_class 1 of
                   Inl e \<Rightarrow> Inl e
                 | Inr disease_name \<Rightarrow> Inr (JStr crop_name, JStr disease_name))))"

section \<open>The result (predict, lines 252-283)\<close>

fun py_type_name :: "json \<Rightarrow> string" where
  "py_type_name JNull = ''NoneType''"
| "py_type_name (JBool b) = ''bool''"
| "py_type_name (JInt i) = ''int''"
| "py_type_name (JFloat x) = ''float''"
| "py_type_name (JStr s) = ''str''"
| "py_type_name (JList xs) = ''list''"
| "py_type_name (JObj kvs) = ''dict''"

text \<open>\<open>v.lower()\<close>: only a string has the method.\<close>

definition lower_of :: "json \<Rightarrow> exn + string" where
  "lower_of v =
     (case v of
        JStr s \<Rightarrow> Inr (str_lower s)
      | _ \<Rightarrow> Inl (Exception ([CHR 0x27] @ py_type_name v @ [CHR 0x27]
                 @ '' object has no attribute '' @ [CHR 0x27] @ ''lower'' @ [CHR 0x27])))"

text \<open>
  A value inside an f-string. A string stands for itself; \<open>py_str\<close> is Python's \<open>str\<close>
  on the other values, a parameter of the model.
\<close>

definition fmt :: "(json \<Rightarrow> string) \<Rightarrow> json \<Rightarrow> string" where
  "fmt py_str v = (case v of JStr s \<Rightarrow> s | _ \<Rightarrow> py_str v)"

definition soilInsights :: json where
  "soilInsights =
     JObj [(''tips'', JList [JStr ''Ensure soil is well-drained.'',
                             JStr ''Check and maintain appropriate pH levels.''])]"

definition weatherImpact :: json where
  "weatherImpact =
     JObj [(''riskLevel'', JStr ''Monitor''),
           (''advice'', JStr ''Monitor local weather forecasts for humidity spikes which promote fungal spread.'')]"

text \<open>
  The dictionary literal of lines 252-282. Its entries are evaluated in order, so
  \<open>disease_name.lower()\<close>, an argument of the \<open>plantHealth\<close> entry, is evaluated
  whether or not the record has a \<open>health_status\<close>.
\<close>

definition assemble ::
  "(json \<Rightarrow> string) \<Rightarrow> (string \<times> json) list \<Rightarrow> string \<Rightarrow> json \<Rightarrow> json \<Rightarrow> rat \<Rightarrow> int
     \<Rightarrow> exn + json" where
  "assemble py_str disease_data predicted_class crop_name disease_name confidence total_time =
     (case lower_of disease_name of
        Inl e \<Rightarrow> Inl e
      | Inr lowered \<Rightarrow>
          Inr (JObj
            [(''success'', JBool True),
             (''data'', JObj
               [(''modelUsed'', JStr ''crop_disease_model.h5 (Local CNN)''),
                (''predictedClass'', JStr predicted_class),
                (''crop'', crop_name),
                (''disease'', disease_name),
                (''confidence'', JFloat (py_round confidence 4)),
                (''plantHealth'',
                   dict_get (map_of disease_data) ''health_status''
                     (JStr (if str_contains ''healthy'' lowered then ''Healthy''
                            else ''Diseased''))),
                (''executionTimeMs'', JInt total_time),
                (''recommendations'', JObj
                  [(''diagnosis'',
                      dict_get (map_of disease_data) ''diagnosis''
                        (JStr (''ML model detected '' @ fmt py_str disease_name @ '' in ''
                               @ fmt py_str crop_name @ '' with ''
                               @ str_float1 (py_round (confidence * 100) 1)
                               @ ''% confidence.''))),
                   (''treatment'',
                      dict_get (map_of disease_data) ''chemical_treatment''
                        (JList [JStr ''Consult a local agronomist for treatment advice.''])),
                   (''organicTreatment'',
                      dict_get (map_of disease_data) ''organic_treatment''
                        (JList [JStr ''Apply neem-based organic pesticide as a general precaution.''])),
                   (''irrigationAdvice'',
                      dict_get (map_of disease_data) ''irrigation_advice''
                        (JStr ''Monitor soil moisture; avoid waterlogging.'')),
                   (''fertilizerAdvice'',
                      dict_get (map_of disease_data) ''fertilizer_advice''
                        (JStr ''Maintain balanced NPK nutrition.''))]),
                (''growthStage'', JObj
                  [(''stage'', dict_get (map_of disease_data) ''growth_stage'' (JStr ''Unknown'')),
                   (''daysToHarvest'',
                      dict_get (map_of disease_data) ''days_to_harvest'' (JInt 0))]),
                (''tutorial'', dict_get (map_of disease_data) ''tutorial'' (JList [])),
                (''soilInsights'', soilInsights),
                (''weatherImpact'', weatherImpact)])]))"

text \<open>The object emitted at lines 211-215.\<close>

definition invalid_image :: json where
  "invalid_image =
     JObj [(''success'', JBool True),
           (''status'', JStr ''invalid_image''),
           (''message'', JStr ''Non-agricultural image detected. Please upload a clear photo of a crop leaf, plant, or soil.'')]"

text \<open>
  Lines 241-283: the record of the predicted class is looked up, the names are resolved
  and the dictionary is built. \<open>total_time\<close> is read from the clock.
\<close>

definition build_result ::
  "(json \<Rightarrow> string) \<Rightarrow> disease_info \<Rightarrow> string \<Rightarrow> rat \<Rightarrow> int \<Rightarrow> exn + json" where
  "build_result py_str full_disease_info predicted_class confidence total_time =
     (let disease_data = dict_get full_disease_info predicted_class []
      in case resolve_names disease_data predicted_class of
           Inl e \<Rightarrow> Inl e
         | Inr (crop_name, disease_name) \<Rightarrow>
             assemble py_str disease_data predicted_class crop_name disease_name
               confidence total_time)"

text \<open>
  Lines 205-283 of \<open>predict\<close>: from the score vector to the object that is emitted.
  \<open>tie\<close> is the order \<open>argsort\<close> leaves equal scores in.
\<close>

definition predict_decision ::
  "nat list \<Rightarrow> (json \<Rightarrow> string) \<Rightarrow> class_names \<Rightarrow> disease_info \<Rightarrow> rat list \<Rightarrow> int
     \<Rightarrow> exn + json" where
  "predict_decision tie py_str cn full_disease_info predictions total_time =
     (case np_max predictions of
        Inl e \<Rightarrow> Inl e
      | Inr top_confidence \<Rightarrow>
          if top_confidence < 0.15 then Inr invalid_image
          else (case select_class tie cn predictions of
                  Inl e \<Rightarrow> Inl e
                | Inr (predicted_class_idx, confidence) \<Rightarrow>
                    build_result py_str full_disease_info
                      (dict_get cn predicted_class_idx ''Unknown'') confidence total_time))"

text \<open>Reading a path into a JSON object: the keys in order, the values by name.\<close>

fun json_at :: "string list \<Rightarrow> json \<Rightarrow> json option" where
  "json_at [] v = Some v"
| "json_at (k # ks) (JObj kvs) =
     (case map_of kvs k of None \<Rightarrow> None | Some v \<Rightarrow> json_at ks v)"
| "json_at (k # ks) _ = None"



section \<open>The pipelines and their handlers\<close>

text \<open>
  What one run does: it prints one JSON object (\<open>emit\<close>), or an exception leaves the
  function. \<open>log\<close> writes to stderr and to a file and has no part in the result. Writing
  to stderr and stdout is taken to succeed: a \<open>print\<close> that raises inside \<open>log\<close> or
  \<open>emit\<close> is not part of the model.
\<close>

datatype outcome = Emitted json | Escaped exn

definition model_error :: "string \<Rightarrow> json" where
  "model_error msg =
     JObj [(''success'', JBool False), (''status'', JStr ''model_error''), (''error'', JStr msg)]"

subsection \<open>predict_soil\<close>

definition em_dash :: string where
  "em_dash = [CHR 0xE2, CHR 0x80, CHR 0x94]"

definition status_map :: "int \<rightharpoonup> string" where
  "status_map =
     [0 \<mapsto> ''Balanced Soil'',
      1 \<mapsto> ''Nutrient Deficient '' @ em_dash @ '' Low Nitrogen / Organic Matter'',
      2 \<mapsto> ''Nutrient Deficient '' @ em_dash @ '' Low Phosphorus / Potassium'']"

definition rec_map :: "int \<rightharpoonup> string" where
  "rec_map =
     [0 \<mapsto> ''Soil is well-balanced. Maintain regular composting and pH monitoring.'',
      1 \<mapsto> ''Apply organic compost or urea to restore nitrogen levels. Consider green manure.'',
      2 \<mapsto> ''Apply DAP (Di-ammonium Phosphate) or MOP (Muriate of Potash) as appropriate.'']"

text \<open>The object emitted at lines 83-92 for a predicted class.\<close>

definition soil_result :: "int \<Rightarrow> int \<Rightarrow> json" where
  "soil_result prediction elapsed =
     JObj [(''success'', JBool True),
           (''data'', JObj
             [(''soilType'', JStr ''Analysed via ML Model''),
              (''status'', JStr (dict_get status_map prediction (''Class '' @ str_int prediction))),
              (''predictionClass'', JInt prediction),
              (''recommendation'', JStr (dict_get rec_map prediction ''Consult an agronomist.'')),
              (''executionTimeMs'', JInt elapsed)])]"

text \<open>
  The collaborators of \<open>predict_soil\<close>: what the file system, the imports, the model
  and the clock answer in one run. A step that can raise holds the exception.
  \<open>py_float\<close> is \<open>float(x)\<close>; \<open>soil_model_predict\<close> is the data frame built from the
  values, \<open>model.predict(df)[0]\<close> and \<open>int\<close> of it.
\<close>

record soil_env =
  soil_model_path :: string
  soil_model_exists :: bool
  soil_imports :: "exn option"
  soil_model_load :: "exn option"
  py_float :: "string \<Rightarrow> exn + rat"
  soil_model_predict :: "rat list \<Rightarrow> exn + int"
  soil_elapsed :: int

text \<open>A list comprehension: it stops at the first element that raises.\<close>

fun map_exn :: "('a \<Rightarrow> exn + 'b) \<Rightarrow> 'a list \<Rightarrow> exn + 'b list" where
  "map_exn f [] = Inr []"
| "map_exn f (x # xs) =
     (case f x of
        Inl e \<Rightarrow> Inl e
      | Inr y \<Rightarrow> (case map_exn f xs of Inl e \<Rightarrow> Inl e | Inr ys \<Rightarrow> Inr (y # ys)))"

text \<open>The body of the \<open>try\<close> at lines 57-92.\<close>

definition soil_body :: "soil_env \<Rightarrow> string \<Rightarrow> exn + json" where
  "soil_body env features_str =
     (case soil_model_load env of
        Some e \<Rightarrow> Inl e
      | None \<Rightarrow>
          (case map_exn (py_float env) (str_split features_str '','') of
             Inl e \<Rightarrow> Inl e
           | Inr vals \<Rightarrow>
               (case soil_model_predict env vals of
                  Inl e \<Rightarrow> Inl e
                | Inr prediction \<Rightarrow> Inr (soil_result prediction (soil_elapsed env)))))"

definition predict_soil :: "soil_env \<Rightarrow> string \<Rightarrow> outcome" where
  "predict_soil env features_str =
     (if \<not> soil_model_exists env
      then Emitted (model_error (''Soil model not found: '' @ soil_model_path env))
      else (case soil_imports env of
              Some (ImportError m) \<Rightarrow>
                Emitted (model_error (''Missing Python dependency: '' @ m))
            | Some (Exception m) \<Rightarrow> Escaped (Exception m)
            | Some (BaseException m) \<Rightarrow> Escaped (BaseException m)
            | None \<Rightarrow>
                (case soil_body env features_str of
                   Inl e \<Rightarrow>
                     if is_Exception e then Emitted (model_error (str_exn e)) else Escaped e
                 | Inr out \<Rightarrow> Emitted out)))"

subsection \<open>predict\<close>

text \<open>
  The collaborators of \<open>predict\<close>, in the order the function meets them.
  \<open>class_indices\<close> is the content of class_indices.json (label to index, in file
  order), \<open>model_predict\<close> is \<open>model.predict(img_array, verbose=0)[0]\<close>,
  \<open>unlink_tmp\<close> is the removal of the temporary file, \<open>argsort_ties\<close> the order
  numpy's sort leaves equal scores in.
\<close>

record image_env =
  model_path :: string
  model_exists :: bool
  model_getsize :: "exn option"
  tf_imports :: "exn option"
  model_load :: "exn option"
  indices_exists :: bool
  class_indices :: "exn + (string \<times> int) list"
  info_exists :: bool
  disease_info_load :: "exn + disease_info"
  download :: "exn option"
  preprocess :: "exn option"
  unlink_tmp :: "exn option"
  model_predict :: "exn + rat list"
  argsort_ties :: "nat list"
  env_total_time :: int
  env_py_str :: "json \<Rightarrow> string"

text \<open>\<open>try: ... except Exception: pass\<close> (lines 194-197): what still propagates.\<close>

fun swallowed :: "exn option \<Rightarrow> exn option" where
  "swallowed None = None"
| "swallowed (Some e) = (if is_Exception e then None else Some e)"

text \<open>Line 143: \<open>{v: k for k, v in class_indices.items()}\<close>; a later item wins.\<close>

definition invert_indices :: "(string \<times> int) list \<Rightarrow> class_names" where
  "invert_indices items = foldl (\<lambda>m (k, v). m(v \<mapsto> k)) Map.empty items"

text \<open>
  The body of the \<open>try\<close> at lines 130-283. A failed download is handled inside it
  by its own \<open>except Exception\<close> (lines 177-181): its object is emitted and the function
  returns.
\<close>

definition predict_body :: "image_env \<Rightarrow> exn + json" where
  "predict_body env =
     (case model_load env of
        Some e \<Rightarrow> Inl e
      | None \<Rightarrow>
          (case (if indices_exists env
                 then (case class_indices env of
                         Inl e \<Rightarrow> Inl e
                       | Inr items \<Rightarrow> Inr (invert_indices items))
                 else Inr [0 \<mapsto> ''Unknown'']) of
             Inl e \<Rightarrow> Inl e
           | Inr cn \<Rightarrow>
               (case (if info_exists env then disease_info_load env else Inr Map.empty) of
                  Inl e \<Rightarrow> Inl e
                | Inr full_disease_info \<Rightarrow>
                    (case download env of
                       Some e \<Rightarrow>
                         if is_Exception e
                         then Inr (model_error (''Failed to download image: '' @ str_exn e))
                         else Inl e
                     | None \<Rightarrow>
                         (case preprocess env of
                            Some e \<Rightarrow> Inl e
                          | None \<Rightarrow>
                              (case swallowed (unlink_tmp env) of
                                 Some e \<Rightarrow> Inl e
                               | None \<Rightarrow>
                                   (case model_predict env of
                                      Inl e \<Rightarrow> Inl e
                                    | Inr predictions \<Rightarrow>
                                        predict_decision (argsort_ties env) (env_py_str env)
                                          cn full_disease_info predictions
                                          (env_total_time env))))))))"

definition predict :: "image_env \<Rightarrow> outcome" where
  "predict env =
     (if \<not> model_exists env
      then Emitted (model_error (''Model not loaded '' @ em_dash @ '' file not found: ''
                                  @ model_path env))
      else (case model_getsize env of
              Some e \<Rightarrow> Escaped e
            | None \<Rightarrow>
                (case tf_imports env of
                   Some (ImportError m) \<Rightarrow>
                     Emitted (model_error (''TensorFlow missing: '' @ m
                                @ ''. Run: pip install -r requirements.txt''))
                 | Some (Exception m) \<Rightarrow> Escaped (Exception m)
                 | Some (BaseException m) \<Rightarrow> Escaped (BaseException m)
                 | None \<Rightarrow>
                     (case predict_body env of
                        Inl e \<Rightarrow>
                          if is_Exception e then Emitted (model_error (str_exn e))
                          else Escaped e
                      | Inr out \<Rightarrow> Emitted out))))"

section \<open>Facts about the score vector operations\<close>

lemma fold_max_Max: "fold max xs (x::rat) = Max (insert x (set xs))"
  using Max.set_eq_fold[of x xs] by simp

lemma np_max_eq: "np_max xs = Inr m \<longleftrightarrow> xs \<noteq> [] \<and> m = Max (set xs)"
  by (cases xs) (auto simp: fold_max_Max)

lemma np_argmax_total: "xs \<noteq> [] \<Longrightarrow> \<exists>i. np_argmax xs = Inr i"
  by (cases xs) auto

lemma np_argmax_props:
  assumes "np_argmax xs = Inr i"
  shows "0 \<le> i \<and> i < int (length xs) \<and> xs ! nat i = Max (set xs)
         \<and> (\<forall>j < nat i. xs ! j < Max (set xs))"
proof -
  obtain y ys where xs: "xs = y # ys" using assms by (cases xs) auto
  let ?m = "Max (set xs)"
  let ?P = "\<lambda>z. z \<noteq> ?m"
  have i: "i = int (length (takeWhile ?P xs))"
    using assms xs by (simp add: fold_max_Max del: takeWhile.simps)
  have "?m \<in> set xs" using xs by (intro Max_in) auto
  then have "takeWhile ?P xs \<noteq> xs"
    by (simp add: takeWhile_eq_all_conv)
  moreover have "takeWhile ?P xs = take (length (takeWhile ?P xs)) xs"
    by (rule takeWhile_eq_take)
  ultimately have "length (takeWhile ?P xs) \<noteq> length xs"
    by (metis take_all order_refl)
  then have lt: "length (takeWhile ?P xs) < length xs"
    using length_takeWhile_le[of ?P xs] by linarith
  then have at: "xs ! length (takeWhile ?P xs) = ?m"
    using nth_length_takeWhile[of ?P xs] by simp
  have below: "\<forall>j < length (takeWhile ?P xs). xs ! j < ?m"
  proof (intro allI impI)
    fix j assume j: "j < length (takeWhile ?P xs)"
    then have "xs ! j \<noteq> ?m"
      using takeWhile_nth[of j ?P xs] nth_mem[of j "takeWhile ?P xs"]
        set_takeWhileD[of "takeWhile ?P xs ! j" ?P xs]
      by auto
    moreover have "xs ! j \<le> ?m" using j lt by (intro Max_ge) auto
    ultimately show "xs ! j < ?m" by simp
  qed
  show ?thesis using i lt at below by simp
qed

lemma getitem_in_range: "0 \<le> i \<Longrightarrow> i < int (length xs) \<Longrightarrow> getitem xs i = Inr (xs ! nat i)"
  by (simp add: getitem_def)

text \<open>The list the sort starts from holds every index once, whatever \<open>tie\<close> is.\<close>

lemma set_tie_order: "set (tie_order tie n) = {0..<n}"
  by (auto simp: tie_order_def)

lemma distinct_tie_order: "distinct (tie_order tie n)"
  by (auto simp: tie_order_def)

lemma tie_order_Nil: "tie_order [] n = [0..<n]"
  by (simp add: tie_order_def)

lemma tie_order_perm:
  assumes "distinct r" "set r = {0..<n}"
  shows "tie_order r n = r"
proof -
  have "filter (\<lambda>i. i < n) r = r" using assms(2) by (intro filter_True) auto
  moreover have "filter (\<lambda>i. i \<notin> set r) [0..<n] = []"
    using assms(2) by (simp add: filter_empty_conv)
  ultimately show ?thesis using assms(1) by (simp add: tie_order_def distinct_remdups_id)
qed

lemma set_argsort: "set (argsort tie xs) = int ` {0..<length xs}"
  by (simp add: argsort_def set_tie_order)

lemma distinct_argsort: "distinct (argsort tie xs)"
  by (simp add: argsort_def distinct_map distinct_tie_order)

lemma length_argsort: "length (argsort tie xs) = length xs"
proof -
  have "length (tie_order tie (length xs)) = card (set (tie_order tie (length xs)))"
    using distinct_tie_order[of tie "length xs"] by (simp add: distinct_card)
  then show ?thesis by (simp add: argsort_def set_tie_order)
qed

lemma argsort_sorted_wrt:
  "sorted_wrt (\<lambda>i j. xs ! nat i \<le> xs ! nat j) (argsort tie xs)"
proof -
  have "sorted (map (\<lambda>i. xs ! i) (sort_key (\<lambda>i. xs ! i) (tie_order tie (length xs))))"
    by (rule sorted_sort_key)
  then show ?thesis by (simp add: argsort_def sorted_map sorted_wrt_map)
qed

text \<open>Every ascending arrangement of the indices is what \<open>argsort\<close> returns for some \<open>tie\<close>.\<close>

lemma argsort_any_ascending:
  assumes "distinct r" "set r = {0..<length xs}" "sorted (map (\<lambda>i. xs ! i) r)"
  shows "argsort r xs = map int r"
  using assms by (simp add: argsort_def tie_order_perm sort_key_id_if_sorted)

lemma set_top_k_subset: "set (top_k_indices tie xs) \<subseteq> int ` {0..<length xs}"
  using set_drop_subset[of "length (argsort tie xs) - 5" "argsort tie xs"]
  by (simp add: top_k_indices_def last5_def set_argsort)

lemma top_k_in_range:
  "i \<in> set (top_k_indices tie xs) \<Longrightarrow> 0 \<le> i \<and> i < int (length xs)"
  using set_top_k_subset[of tie xs] by auto

lemma length_top_k: "length (top_k_indices tie xs) = min 5 (length xs)"
  by (simp add: top_k_indices_def last5_def length_argsort)

lemma distinct_top_k: "distinct (top_k_indices tie xs)"
  by (simp add: top_k_indices_def last5_def distinct_argsort)

lemma top_k_sorted_wrt:
  "sorted_wrt (\<lambda>i j. xs ! nat j \<le> xs ! nat i) (top_k_indices tie xs)"
  using argsort_sorted_wrt[of xs tie]
  by (simp add: top_k_indices_def last5_def sorted_wrt_rev sorted_wrt_drop)

lemma top_k_dominates:
  assumes "0 \<le> j" "j < int (length xs)" "j \<notin> set (top_k_indices tie xs)"
    "i \<in> set (top_k_indices tie xs)"
  shows "xs ! nat j \<le> xs ! nat i"
proof -
  let ?l = "argsort tie xs" let ?k = "length ?l - 5"
  have "sorted_wrt (\<lambda>i j. xs ! nat i \<le> xs ! nat j) (take ?k ?l @ drop ?k ?l)"
    using argsort_sorted_wrt[of xs tie] by simp
  then have *: "\<forall>x\<in>set (take ?k ?l). \<forall>y\<in>set (drop ?k ?l). xs ! nat x \<le> xs ! nat y"
    unfolding sorted_wrt_append by blast
  have "j \<in> set ?l"
    using assms(1,2) by (auto simp: set_argsort image_iff intro: bexI[of _ "nat j"])
  then have "j \<in> set (take ?k ?l) \<union> set (drop ?k ?l)"
    by (metis append_take_drop_id set_append)
  moreover have "j \<notin> set (drop ?k ?l)"
    using assms(3) by (simp add: top_k_indices_def last5_def)
  ultimately have "j \<in> set (take ?k ?l)" by blast
  moreover have "i \<in> set (drop ?k ?l)"
    using assms(4) by (simp add: top_k_indices_def last5_def)
  ultimately show ?thesis using * by blast
qed

text \<open>The first candidate holds the maximum score.\<close>

lemma top_k_head_max:
  assumes "xs \<noteq> []"
  shows "\<exists>c rest. top_k_indices tie xs = c # rest \<and> 0 \<le> c \<and> c < int (length xs) \<and>
           xs ! nat c = Max (set xs)"
proof -
  have "length (top_k_indices tie xs) \<noteq> 0" using assms by (simp add: length_top_k)
  then obtain c rest where cr: "top_k_indices tie xs = c # rest"
    by (cases "top_k_indices tie xs") auto
  have rng: "0 \<le> c \<and> c < int (length xs)" using top_k_in_range[of c tie xs] cr by simp
  have sw: "\<forall>y\<in>set rest. xs ! nat y \<le> xs ! nat c"
    using top_k_sorted_wrt[of xs tie] cr by simp
  have ge: "y \<le> xs ! nat c" if "y \<in> set xs" for y
  proof -
    from that obtain j where j: "j < length xs" "xs ! j = y"
      unfolding in_set_conv_nth by blast
    show ?thesis
    proof (cases "int j \<in> set (top_k_indices tie xs)")
      case True
      then have "int j = c \<or> int j \<in> set rest" using cr by simp
      then show ?thesis using sw j by auto
    next
      case False
      have "xs ! nat (int j) \<le> xs ! nat c"
        using top_k_dominates[of "int j" xs tie c] False j cr by simp
      then show ?thesis using j by simp
    qed
  qed
  have "nat c < length xs" using rng by linarith
  then have "xs ! nat c \<in> set xs" by (rule nth_mem)
  then have "Max (set xs) = xs ! nat c" using ge by (intro Max_eqI) auto
  then show ?thesis using cr rng by simp
qed

section \<open>The candidate list\<close>

text \<open>
  C3 (as the code has it). The candidate list holds the indices of the five highest
  scores (all indices when the vector is shorter), each once, in descending order of
  score: an index left out of the list has a score no higher than any candidate. The
  order of candidates with equal scores is not fixed: line 219 reverses numpy's default
  \<open>argsort\<close>, which is not stable, so for every ascending arrangement \<open>r\<close> of the indices
  the list can be the last five of \<open>r\<close>, reversed.
\<close>

theorem top_k_indices_descending_ties_open:
  "length (top_k_indices tie xs) = min 5 (length xs) \<and>
   distinct (top_k_indices tie xs) \<and>
   (\<forall>i\<in>set (top_k_indices tie xs). 0 \<le> i \<and> i < int (length xs)) \<and>
   sorted_wrt (\<lambda>i j. xs ! nat j \<le> xs ! nat i) (top_k_indices tie xs) \<and>
   (\<forall>j i. 0 \<le> j \<and> j < int (length xs) \<and> j \<notin> set (top_k_indices tie xs)
            \<and> i \<in> set (top_k_indices tie xs)
          \<longrightarrow> xs ! nat j \<le> xs ! nat i) \<and>
   (\<forall>r. distinct r \<and> set r = {0..<length xs} \<and> sorted (map (\<lambda>i. xs ! i) r)
          \<longrightarrow> top_k_indices r xs = rev (last5 (map int r)))"
proof (intro conjI)
  show "length (top_k_indices tie xs) = min 5 (length xs)" by (rule length_top_k)
  show "distinct (top_k_indices tie xs)" by (rule distinct_top_k)
  show "\<forall>i\<in>set (top_k_indices tie xs). 0 \<le> i \<and> i < int (length xs)"
    using top_k_in_range by blast
  show "sorted_wrt (\<lambda>i j. xs ! nat j \<le> xs ! nat i) (top_k_indices tie xs)"
    by (rule top_k_sorted_wrt)
  show "\<forall>j i. 0 \<le> j \<and> j < int (length xs) \<and> j \<notin> set (top_k_indices tie xs)
            \<and> i \<in> set (top_k_indices tie xs)
          \<longrightarrow> xs ! nat j \<le> xs ! nat i"
    using top_k_dominates by blast
  show "\<forall>r. distinct r \<and> set r = {0..<length xs} \<and> sorted (map (\<lambda>i. xs ! i) r)
          \<longrightarrow> top_k_indices r xs = rev (last5 (map int r))"
    by (simp add: top_k_indices_def argsort_any_ascending)
qed

lemma top_k_indices_example:
  "top_k_indices [] [0.3, 0.5, 0.5, 0.1, 0.2, 0.4, 0.05] = [2, 1, 5, 0, 4]"
  by (simp add: top_k_indices_def last5_def argsort_def tie_order_def upt_conv_Cons)

lemma top_k_indices_example_other_tie:
  "top_k_indices [2, 1] [0.3, 0.5, 0.5, 0.1, 0.2, 0.4, 0.05] = [1, 2, 5, 0, 4]"
  by (simp add: top_k_indices_def last5_def argsort_def tie_order_def upt_conv_Cons)

text \<open>Four scores in two ties: the stable order and its opposite are both possible.\<close>

lemma top_k_indices_two_ties:
  "top_k_indices [] [0.5, 0.5, 0.25, 0.25] = [1, 0, 3, 2]"
  "top_k_indices [3, 2, 1, 0] [0.5, 0.5, 0.25, 0.25] = [0, 1, 2, 3]"
  by (simp_all add: top_k_indices_def last5_def argsort_def tie_order_def upt_conv_Cons)

theorem top_k_indices_descending_ties_open_witness:
  "top_k_indices [] [0.3, 0.5, 0.5, 0.1, 0.2, 0.4, 0.05] = [2, 1, 5, 0, 4] \<and>
   (0::int) \<le> 3 \<and> 3 < int (length [0.3, 0.5, 0.5, 0.1, 0.2, 0.4, 0.05 :: rat]) \<and>
   3 \<notin> set (top_k_indices [] [0.3, 0.5, 0.5, 0.1, 0.2, 0.4, 0.05]) \<and>
   4 \<in> set (top_k_indices [] [0.3, 0.5, 0.5, 0.1, 0.2, 0.4, 0.05]) \<and>
   [0.3, 0.5, 0.5, 0.1, 0.2, 0.4, 0.05 :: rat] ! nat 3
     \<le> [0.3, 0.5, 0.5, 0.1, 0.2, 0.4, 0.05] ! nat 4 \<and>
   length (top_k_indices [] [0.3, 0.5, 0.5, 0.1, 0.2, 0.4, 0.05]) = 5 \<and>
   distinct [6, 3, 4, 0, 5, 1, 2 :: nat] \<and>
   set [6, 3, 4, 0, 5, 1, 2 :: nat] = {0..<length [0.3, 0.5, 0.5, 0.1, 0.2, 0.4, 0.05 :: rat]} \<and>
   sorted (map (\<lambda>i. [0.3, 0.5, 0.5, 0.1, 0.2, 0.4, 0.05 :: rat] ! i) [6, 3, 4, 0, 5, 1, 2]) \<and>
   top_k_indices [6, 3, 4, 0, 5, 1, 2] [0.3, 0.5, 0.5, 0.1, 0.2, 0.4, 0.05] = [2, 1, 5, 0, 4]"
proof -
  let ?xs = "[0.3, 0.5, 0.5, 0.1, 0.2, 0.4, 0.05] :: rat list"
  let ?r = "[6, 3, 4, 0, 5, 1, 2] :: nat list"
  have r: "distinct ?r \<and> set ?r = {0..<length ?xs} \<and> sorted (map (\<lambda>i. ?xs ! i) ?r)"
    by (auto simp: atLeastLessThan_def lessThan_def atLeast_def)
  have "top_k_indices ?r ?xs = rev (last5 (map int ?r))"
    using top_k_indices_descending_ties_open [of "[]" ?xs] r by blast
  then have t: "top_k_indices ?r ?xs = [2, 1, 5, 0, 4]" by (simp add: last5_def)
  have m: "(0::int) \<le> 3 \<and> 3 < int (length ?xs) \<and> 3 \<notin> set (top_k_indices [] ?xs) \<and>
      4 \<in> set (top_k_indices [] ?xs)"
    unfolding top_k_indices_example by simp
  have d: "?xs ! nat 3 \<le> ?xs ! nat 4"
    using top_k_indices_descending_ties_open [of "[]" ?xs] m by blast
  have l: "length (top_k_indices [] ?xs) = 5"
    unfolding top_k_indices_example by simp
  show ?thesis
    using top_k_indices_example m d l r t by blast
qed

text \<open>
  C3 as the specification words it fails: with two equal scores the candidate list can
  start with the higher index.
\<close>

theorem top_k_indices_tie_counterexample:
  "top_k_indices [] [0.5, 0.5] = [1, 0] \<and> [0.5, 0.5 :: rat] ! nat 1 = [0.5, 0.5] ! nat 0"
  by (simp add: top_k_indices_def last5_def argsort_def tie_order_def upt_conv_Cons)

section \<open>The candidate resolver\<close>

lemma top_k_loop_filter:
  assumes "\<forall>i\<in>set cands. 0 \<le> i \<and> i < int (length preds)"
  shows "top_k_loop cn preds cands =
           Inr (case filter (\<lambda>i. informative (dict_get cn i ''Unknown'')) cands of
                  [] \<Rightarrow> (- 1, 0)
                | i # _ \<Rightarrow> (i, preds ! nat i))"
  using assms by (induction cands) (auto simp: getitem_in_range Let_def)

lemma select_class_char:
  assumes "preds \<noteq> []"
  shows "\<exists>idx conf. select_class tie cn preds = Inr (idx, conf) \<and> getitem preds idx = Inr conf \<and>
     (case filter (\<lambda>i. informative (dict_get cn i ''Unknown'')) (top_k_indices tie preds) of
        [] \<Rightarrow> np_argmax preds = Inr idx \<and> np_max preds = Inr conf
      | i # _ \<Rightarrow> idx = i)"
proof -
  let ?F = "filter (\<lambda>i. informative (dict_get cn i ''Unknown'')) (top_k_indices tie preds)"
  have loop: "top_k_loop cn preds (top_k_indices tie preds) =
      Inr (case ?F of [] \<Rightarrow> (- 1, 0) | i # _ \<Rightarrow> (i, preds ! nat i))"
    by (rule top_k_loop_filter) (simp add: top_k_in_range)
  show ?thesis
  proof (cases ?F)
    case Nil
    obtain i where i: "np_argmax preds = Inr i" using np_argmax_total[OF assms] by blast
    have m: "np_max preds = Inr (Max (set preds))" using assms by (simp add: np_max_eq)
    have "getitem preds i = Inr (Max (set preds))"
      using np_argmax_props[OF i] by (simp add: getitem_in_range)
    then show ?thesis using Nil loop i m by (simp add: select_class_def)
  next
    case (Cons i rest)
    then have "i \<in> set (top_k_indices tie preds)"
      using filter_eq_ConsD[OF Cons] by auto
    then have r: "0 \<le> i \<and> i < int (length preds)" by (rule top_k_in_range)
    then show ?thesis using Cons loop by (simp add: select_class_def getitem_in_range)
  qed
qed

lemma select_class_head:
  assumes "top_k_indices tie xs = c # rest" "informative (dict_get cn c ''Unknown'')"
  shows "select_class tie cn xs = Inr (c, xs ! nat c)"
proof -
  have "0 \<le> c \<and> c < int (length xs)" using top_k_in_range[of c tie xs] assms(1) by simp
  then show ?thesis using assms by (simp add: select_class_def getitem_in_range)
qed

text \<open>
  C1. Once the gate has accepted the score vector, the selection returns an index and
  a confidence, whatever order the sort leaves equal scores in. The candidates are the
  indices of the five highest scores (all indices when there are fewer), each once, in
  descending order of score. When some candidate has a label other than "PlantVillage"
  and "Unknown" (an index missing from the map reads "Unknown"), the candidate list
  splits into the candidates skipped, all with one of the two labels, the index returned,
  whose label is neither, and the rest; the confidence is the raw score at that index.
  When every candidate has one of the two labels, the index is the global argmax and
  the confidence the maximum, with no filter.
\<close>

theorem resolver_first_informative_else_argmax:
  assumes "np_max predictions = Inr top_confidence" and "\<not> top_confidence < 0.15"
  shows "\<exists>idx conf. select_class tie cn predictions = Inr (idx, conf) \<and>
     (if \<exists>i\<in>set (top_k_indices tie predictions).
            dict_get cn i ''Unknown'' \<notin> {''PlantVillage'', ''Unknown''}
      then (\<exists>skipped rest. top_k_indices tie predictions = skipped @ idx # rest \<and>
              (\<forall>j\<in>set skipped. dict_get cn j ''Unknown'' \<in> {''PlantVillage'', ''Unknown''}) \<and>
              dict_get cn idx ''Unknown'' \<notin> {''PlantVillage'', ''Unknown''} \<and>
              getitem predictions idx = Inr conf)
      else np_argmax predictions = Inr idx \<and> conf = top_confidence \<and>
           getitem predictions idx = Inr top_confidence) \<and>
     length (top_k_indices tie predictions) = min 5 (length predictions) \<and>
     distinct (top_k_indices tie predictions) \<and>
     (\<forall>i\<in>set (top_k_indices tie predictions). 0 \<le> i \<and> i < int (length predictions)) \<and>
     sorted_wrt (\<lambda>i j. predictions ! nat j \<le> predictions ! nat i)
       (top_k_indices tie predictions) \<and>
     (\<forall>j i. 0 \<le> j \<and> j < int (length predictions) \<and> j \<notin> set (top_k_indices tie predictions)
              \<and> i \<in> set (top_k_indices tie predictions)
            \<longrightarrow> predictions ! nat j \<le> predictions ! nat i)"
proof -
  let ?P = "\<lambda>i. informative (dict_get cn i ''Unknown'')"
  let ?F = "filter ?P (top_k_indices tie predictions)"
  have inf: "\<And>i. ?P i \<longleftrightarrow> dict_get cn i ''Unknown'' \<notin> {''PlantVillage'', ''Unknown''}"
    by (simp add: informative_def)
  have ne: "predictions \<noteq> []" using assms(1) by (simp add: np_max_eq)
  have five: "length (top_k_indices tie predictions) = min 5 (length predictions) \<and>
     distinct (top_k_indices tie predictions) \<and>
     (\<forall>i\<in>set (top_k_indices tie predictions). 0 \<le> i \<and> i < int (length predictions)) \<and>
     sorted_wrt (\<lambda>i j. predictions ! nat j \<le> predictions ! nat i)
       (top_k_indices tie predictions) \<and>
     (\<forall>j i. 0 \<le> j \<and> j < int (length predictions) \<and> j \<notin> set (top_k_indices tie predictions)
              \<and> i \<in> set (top_k_indices tie predictions)
            \<longrightarrow> predictions ! nat j \<le> predictions ! nat i)"
    using length_top_k distinct_top_k top_k_in_range top_k_sorted_wrt top_k_dominates
    by blast
  obtain idx conf where sel: "select_class tie cn predictions = Inr (idx, conf)"
    and get: "getitem predictions idx = Inr conf"
    and F: "case ?F of [] \<Rightarrow> np_argmax predictions = Inr idx \<and> np_max predictions = Inr conf
            | i # _ \<Rightarrow> idx = i"
    using select_class_char[OF ne, of tie cn] by blast
  have walk: "if \<exists>i\<in>set (top_k_indices tie predictions).
            dict_get cn i ''Unknown'' \<notin> {''PlantVillage'', ''Unknown''}
      then (\<exists>skipped rest. top_k_indices tie predictions = skipped @ idx # rest \<and>
              (\<forall>j\<in>set skipped. dict_get cn j ''Unknown'' \<in> {''PlantVillage'', ''Unknown''}) \<and>
              dict_get cn idx ''Unknown'' \<notin> {''PlantVillage'', ''Unknown''} \<and>
              getitem predictions idx = Inr conf)
      else np_argmax predictions = Inr idx \<and> conf = top_confidence \<and>
           getitem predictions idx = Inr top_confidence"
  proof (cases ?F)
    case Nil
    then have none: "\<not> (\<exists>i\<in>set (top_k_indices tie predictions). ?P i)"
      by (simp add: filter_empty_conv)
    have "np_argmax predictions = Inr idx \<and> conf = top_confidence"
      using F Nil assms(1) by simp
    then show ?thesis using get none unfolding inf by auto
  next
    case (Cons i rest)
    then have idx: "idx = i" using F by simp
    obtain us vs where split: "top_k_indices tie predictions = us @ i # vs"
      and skipped: "\<forall>u\<in>set us. \<not> ?P u" and pass: "?P i"
      using Cons unfolding filter_eq_Cons_iff by blast
    have some: "\<exists>i\<in>set (top_k_indices tie predictions). ?P i"
      using split pass by auto
    have "\<exists>skipped rest. top_k_indices tie predictions = skipped @ idx # rest \<and>
              (\<forall>j\<in>set skipped. dict_get cn j ''Unknown'' \<in> {''PlantVillage'', ''Unknown''}) \<and>
              dict_get cn idx ''Unknown'' \<notin> {''PlantVillage'', ''Unknown''} \<and>
              getitem predictions idx = Inr conf"
      using split skipped pass get idx unfolding inf by blast
    then show ?thesis using some unfolding inf by auto
  qed
  show ?thesis using sel walk five by blast
qed

text \<open>
  Six scores, so that the sixth is cut off. In the first map every one of the five
  candidates reads "PlantVillage" or "Unknown" and only the index cut off has a usable
  label: the selection falls back to the argmax. In the second map the third candidate
  is the first usable one.
\<close>

lemma top_k_indices_six:
  "top_k_indices [] [0.6, 0.5, 0.4, 0.3, 0.2, 0.1] = [0, 1, 2, 3, 4]"
  by (simp add: top_k_indices_def last5_def argsort_def tie_order_def upt_conv_Cons)

theorem resolver_first_informative_else_argmax_witness:
  "np_max [0.6, 0.5, 0.4, 0.3, 0.2, 0.1] = Inr 0.6 \<and> \<not> (0.6::rat) < 0.15 \<and>
   top_k_indices [] [0.6, 0.5, 0.4, 0.3, 0.2, 0.1] = [0, 1, 2, 3, 4] \<and>
   dict_get [0 \<mapsto> ''PlantVillage'', 5 \<mapsto> ''Good___One''] (5::int) ''Unknown'' = ''Good___One'' \<and>
   select_class [] [0 \<mapsto> ''PlantVillage'', 5 \<mapsto> ''Good___One'']
     [0.6, 0.5, 0.4, 0.3, 0.2, 0.1] = Inr (0, 0.6) \<and>
   select_class [] [0 \<mapsto> ''PlantVillage'', 1 \<mapsto> ''Unknown'', 2 \<mapsto> ''Wheat___Rust'',
                    5 \<mapsto> ''Good___One'']
     [0.6, 0.5, 0.4, 0.3, 0.2, 0.1] = Inr (2, 0.4)"
proof -
  let ?xs = "[0.6, 0.5, 0.4, 0.3, 0.2, 0.1] :: rat list"
  let ?cn1 = "[0 \<mapsto> ''PlantVillage'', 5 \<mapsto> ''Good___One''] :: class_names"
  let ?cn2 = "[0 \<mapsto> ''PlantVillage'', 1 \<mapsto> ''Unknown'', 2 \<mapsto> ''Wheat___Rust'',
               5 \<mapsto> ''Good___One''] :: class_names"
  have h1: "np_max ?xs = Inr 0.6" by simp
  have h2: "\<not> (0.6::rat) < 0.15" by simp
  note tk = top_k_indices_six
  have g: "dict_get ?cn1 (5::int) ''Unknown'' = ''Good___One''" by (simp add: dict_get_def)
  have none: "\<not> (\<exists>i\<in>set (top_k_indices [] ?xs).
      dict_get ?cn1 i ''Unknown'' \<notin> {''PlantVillage'', ''Unknown''})"
    unfolding tk by (simp add: dict_get_def)
  obtain idx conf where sel: "select_class [] ?cn1 ?xs = Inr (idx, conf)"
    and w: "if \<exists>i\<in>set (top_k_indices [] ?xs).
            dict_get ?cn1 i ''Unknown'' \<notin> {''PlantVillage'', ''Unknown''}
      then (\<exists>skipped rest. top_k_indices [] ?xs = skipped @ idx # rest \<and>
              (\<forall>j\<in>set skipped. dict_get ?cn1 j ''Unknown'' \<in> {''PlantVillage'', ''Unknown''}) \<and>
              dict_get ?cn1 idx ''Unknown'' \<notin> {''PlantVillage'', ''Unknown''} \<and>
              getitem ?xs idx = Inr conf)
      else np_argmax ?xs = Inr idx \<and> conf = 0.6 \<and> getitem ?xs idx = Inr 0.6"
    using resolver_first_informative_else_argmax [OF h1 h2, of "[]" ?cn1] by blast
  have am: "np_argmax ?xs = Inr idx" and cf: "conf = 0.6"
    using w [unfolded if_not_P [OF none]] by blast+
  have "idx = 0" using am by simp
  then have fall: "select_class [] ?cn1 ?xs = Inr (0, 0.6)" using sel cf by simp
  have some: "\<exists>i\<in>set (top_k_indices [] ?xs).
      dict_get ?cn2 i ''Unknown'' \<notin> {''PlantVillage'', ''Unknown''}"
    unfolding tk by (simp add: dict_get_def)
  obtain idx2 conf2 where sel2: "select_class [] ?cn2 ?xs = Inr (idx2, conf2)"
    and w2: "if \<exists>i\<in>set (top_k_indices [] ?xs).
            dict_get ?cn2 i ''Unknown'' \<notin> {''PlantVillage'', ''Unknown''}
      then (\<exists>skipped rest. top_k_indices [] ?xs = skipped @ idx2 # rest \<and>
              (\<forall>j\<in>set skipped. dict_get ?cn2 j ''Unknown'' \<in> {''PlantVillage'', ''Unknown''}) \<and>
              dict_get ?cn2 idx2 ''Unknown'' \<notin> {''PlantVillage'', ''Unknown''} \<and>
              getitem ?xs idx2 = Inr conf2)
      else np_argmax ?xs = Inr idx2 \<and> conf2 = 0.6 \<and> getitem ?xs idx2 = Inr 0.6"
    using resolver_first_informative_else_argmax [OF h1 h2, of "[]" ?cn2] by blast
  obtain skipped rest where sp: "top_k_indices [] ?xs = skipped @ idx2 # rest"
    and sd: "\<forall>j\<in>set skipped. dict_get ?cn2 j ''Unknown'' \<in> {''PlantVillage'', ''Unknown''}"
    and ok: "dict_get ?cn2 idx2 ''Unknown'' \<notin> {''PlantVillage'', ''Unknown''}"
    and gi: "getitem ?xs idx2 = Inr conf2"
    using w2 [unfolded if_P [OF some]] by blast
  have "[0, 1, 2, 3, 4] = skipped @ idx2 # rest" using sp unfolding tk .
  then have "idx2 = 0 \<or> idx2 = 1 \<or> idx2 = 2 \<or> (idx2 = 3 \<and> 2 \<in> set skipped) \<or>
      (idx2 = 4 \<and> 2 \<in> set skipped)"
    by (auto simp: Cons_eq_append_conv)
  moreover have "idx2 \<noteq> 0 \<and> idx2 \<noteq> 1" using ok by (auto simp: dict_get_def)
  moreover have "2 \<notin> set skipped" using sd by (auto simp: dict_get_def)
  ultimately have "idx2 = 2" by blast
  then have "select_class [] ?cn2 ?xs = Inr (2, 0.4)"
    using sel2 gi by (simp add: getitem_def)
  then show ?thesis using h1 h2 tk g fall by blast
qed

lemma assemble_not_invalid_image:
  "assemble py_str dd pc c d conf t \<noteq> Inr invalid_image"
  by (simp add: assemble_def invalid_image_def split: sum.splits)



lemma build_result_not_invalid_image:
  "build_result py_str info pc conf t \<noteq> Inr invalid_image"
  by (simp add: build_result_def Let_def assemble_not_invalid_image split: sum.splits prod.splits)



section \<open>The confidence gate\<close>

text \<open>
  C2. With a maximum score below 0.15 the decision is the rejection object
  \<open>{success: true, status: "invalid_image", message}\<close>, whatever the vector, the
  class map and the metadata are. With a maximum of at least 0.15 the selection returns
  an index and a confidence, and the decision is the result built for the label at that
  index; it is not the rejection object.
\<close>

theorem confidence_gate:
  assumes "np_max predictions = Inr top_confidence"
  shows "(top_confidence < 0.15 \<longrightarrow>
            predict_decision tie py_str cn info predictions t = Inr invalid_image) \<and>
         (\<not> top_confidence < 0.15 \<longrightarrow>
            (\<exists>idx conf. select_class tie cn predictions = Inr (idx, conf) \<and>
               predict_decision tie py_str cn info predictions t =
                 build_result py_str info (dict_get cn idx ''Unknown'') conf t) \<and>
            predict_decision tie py_str cn info predictions t \<noteq> Inr invalid_image) \<and>
         (\<exists>message. invalid_image =
            JObj [(''success'', JBool True), (''status'', JStr ''invalid_image''),
                  (''message'', JStr message)])"
proof (intro conjI impI)
  assume "top_confidence < 0.15"
  then show "predict_decision tie py_str cn info predictions t = Inr invalid_image"
    using assms by (simp add: predict_decision_def)
next
  assume hi: "\<not> top_confidence < 0.15"
  have ne: "predictions \<noteq> []" using assms by (simp add: np_max_eq)
  obtain idx conf where sel: "select_class tie cn predictions = Inr (idx, conf)"
    using select_class_char[OF ne, of tie cn] by blast
  have eq: "predict_decision tie py_str cn info predictions t =
      build_result py_str info (dict_get cn idx ''Unknown'') conf t"
    using assms hi sel by (simp add: predict_decision_def)
  show "\<exists>idx conf. select_class tie cn predictions = Inr (idx, conf) \<and>
               predict_decision tie py_str cn info predictions t =
                 build_result py_str info (dict_get cn idx ''Unknown'') conf t"
    using sel eq by blast
  show "predict_decision tie py_str cn info predictions t \<noteq> Inr invalid_image"
    unfolding eq by (rule build_result_not_invalid_image)
next
  show "\<exists>message. invalid_image =
            JObj [(''success'', JBool True), (''status'', JStr ''invalid_image''),
                  (''message'', JStr message)]"
    by (simp add: invalid_image_def)
qed

theorem confidence_gate_witness:
  "np_max [0.05, 0.06, 0.04] = Inr 0.06 \<and> (0.06::rat) < 0.15 \<and>
   predict_decision [] (\<lambda>v. []) Map.empty Map.empty [0.05, 0.06, 0.04] 7 = Inr invalid_image \<and>
   np_max [0.9, 0.05, 0.03, 0.01, 0.01] = Inr 0.9 \<and> \<not> (0.9::rat) < 0.15 \<and>
   predict_decision [] (\<lambda>v. []) [0 \<mapsto> ''Tomato___Healthy''] Map.empty [0.9, 0.05, 0.03, 0.01, 0.01] 7
     \<noteq> Inr invalid_image"
proof -
  have a: "np_max [0.05, 0.06, 0.04] = Inr 0.06" by simp
  have b: "np_max [0.9, 0.05, 0.03, 0.01, 0.01] = Inr 0.9" by simp
  show ?thesis
    using a b confidence_gate [OF a, of "[]" "\<lambda>v. []" Map.empty Map.empty 7]
      confidence_gate [OF b, of "[]" "\<lambda>v. []" "[0 \<mapsto> ''Tomato___Healthy'']" Map.empty 7]
    by simp
qed

section \<open>The reported confidence\<close>






text \<open>The scenario of the specification, for every order of the two equal scores.\<close>

lemma resolve_names_tomato:
  "resolve_names [] ''Tomato___Healthy'' = Inr (JStr ''Tomato'', JStr ''Healthy'')"
  by (simp add: resolve_names_def label_part_def str_split_def split_from.simps getitem_def
      replace_char_def)

lemma select_class_tomato:
  "select_class tie [0 \<mapsto> ''Tomato___Healthy''] [0.9, 0.05, 0.03, 0.01, 0.01] = Inr (0, 0.9)"
proof -
  let ?xs = "[0.9, 0.05, 0.03, 0.01, 0.01] :: rat list"
  obtain c rest where cr: "top_k_indices tie ?xs = c # rest"
    and rng: "0 \<le> c" "c < int (length ?xs)" and mx: "?xs ! nat c = Max (set ?xs)"
    using top_k_head_max[of ?xs tie] by auto
  have "c = 0 \<or> c = 1 \<or> c = 2 \<or> c = 3 \<or> c = 4" using rng by auto
  then have c0: "c = 0" using mx by auto
  have "informative (dict_get [0 \<mapsto> ''Tomato___Healthy''] c ''Unknown'')"
    unfolding c0 by (simp add: informative_def dict_get_def)
  then show ?thesis using select_class_head[OF cr] unfolding c0 by simp
qed

lemma lower_healthy: "str_lower ''Healthy'' = ''healthy''"
  by code_simp

lemma predict_decision_tomato:
  "\<exists>out. predict_decision tie py_str [0 \<mapsto> ''Tomato___Healthy''] Map.empty
            [0.9, 0.05, 0.03, 0.01, 0.01] t = Inr out \<and> out \<noteq> invalid_image \<and>
     json_at [''data'', ''predictedClass''] out = Some (JStr ''Tomato___Healthy'') \<and>
     json_at [''data'', ''crop''] out = Some (JStr ''Tomato'') \<and>
     json_at [''data'', ''disease''] out = Some (JStr ''Healthy'') \<and>
     json_at [''data'', ''plantHealth''] out = Some (JStr ''Healthy'')"
  unfolding predict_decision_def select_class_tomato
  by (simp add: build_result_def dict_get_def
      resolve_names_tomato assemble_def lower_of_def lower_healthy invalid_image_def)

section \<open>Label decomposition\<close>


lemma split_from_not_Nil: "split_from sep cur s \<noteq> []"
  by (induction sep cur s rule: split_from.induct) (subst split_from.simps, simp)

lemma split_from_contains_length:
  "sep \<noteq> [] \<Longrightarrow> str_contains sep s \<Longrightarrow> 2 \<le> length (split_from sep cur s)"
proof (induction sep cur s rule: split_from.induct)
  case (1 sep cur s)
  show ?case
  proof (cases s)
    case Nil
    then show ?thesis using 1 by simp
  next
    case (Cons c cs)
    show ?thesis
    proof (cases "prefix sep s")
      case True
      have "split_from sep [] (drop (length sep) s) \<noteq> []" by (rule split_from_not_Nil)
      then have "1 \<le> length (split_from sep [] (drop (length sep) s))"
        by (simp add: Suc_le_eq)
      then show ?thesis using True Cons 1(3) by (subst split_from.simps) simp
    next
      case False
      then have "str_contains sep cs" using 1(4) Cons by simp
      then have "2 \<le> length (split_from sep (cur @ [hd s]) (tl s))"
        using 1(2)[of] False Cons 1(3) by simp
      then show ?thesis using False Cons by (subst split_from.simps) simp
    qed
  qed
qed

lemma split_from_no_sep:
  "\<not> str_contains sep s \<Longrightarrow> split_from sep cur s = [cur @ s]"
proof (induction sep cur s rule: split_from.induct)
  case (1 sep cur s)
  show ?case
  proof (cases s)
    case Nil
    then show ?thesis by (subst split_from.simps) simp
  next
    case (Cons c cs)
    then have np: "\<not> prefix sep s" and nc: "\<not> str_contains sep cs" using 1(3) by simp_all
    have "split_from sep (cur @ [hd s]) (tl s) = [(cur @ [hd s]) @ tl s]"
      using 1(2) np nc Cons by simp
    then show ?thesis using np Cons by (subst split_from.simps) simp
  qed
qed

lemma prefix_sep_extend:
  "prefix ''___'' (a # A @ ''___'' @ B) \<longleftrightarrow> prefix ''___'' (a # A @ ''__'')"
proof (cases A)
  case Nil then show ?thesis by simp
next
  case (Cons b A') then show ?thesis by (cases A') simp_all
qed

lemma split_from_step:
  "s \<noteq> [] \<Longrightarrow> \<not> prefix sep s \<Longrightarrow>
   split_from sep cur s = split_from sep (cur @ [hd s]) (tl s)"
  by (subst split_from.simps) simp

lemma split_from_at_sep:
  "sep \<noteq> [] \<Longrightarrow> split_from sep cur (sep @ s) = cur # split_from sep [] s"
  by (subst split_from.simps) simp

lemma split_from_first_sep:
  "\<not> str_contains ''___'' (A @ ''__'') \<Longrightarrow>
   split_from ''___'' cur (A @ ''___'' @ B) = (cur @ A) # split_from ''___'' [] B"
proof (induction A arbitrary: cur)
  case Nil
  show ?case using split_from_at_sep[of "''___''" cur B] by simp
next
  case (Cons a A)
  have np: "\<not> prefix ''___'' (a # A @ ''__'')" and rest: "\<not> str_contains ''___'' (A @ ''__'')"
    using Cons.prems by simp_all
  have np': "\<not> prefix ''___'' ((a # A) @ ''___'' @ B)"
    using np prefix_sep_extend[of a A B] by simp
  have "split_from ''___'' cur ((a # A) @ ''___'' @ B)
        = split_from ''___'' (cur @ [hd ((a # A) @ ''___'' @ B)]) (tl ((a # A) @ ''___'' @ B))"
    by (rule split_from_step[OF _ np']) simp
  then have "split_from ''___'' cur ((a # A) @ ''___'' @ B)
        = split_from ''___'' (cur @ [a]) (A @ ''___'' @ B)"
    by simp
  then show ?case using Cons.IH[OF rest, of "cur @ [a]"] by simp
qed

lemma contains_append_sep: "str_contains ''___'' (A @ ''___'' @ B)"
  by (induction A) simp_all

lemma label_part_total: "(i = 0 \<or> i = 1) \<Longrightarrow> \<exists>p. label_part label i = Inr p"
proof (cases "str_contains ''___'' label")
  case True
  assume i: "i = 0 \<or> i = 1"
  have "2 \<le> length (str_split label ''___'')"
    unfolding str_split_def using True by (intro split_from_contains_length) simp_all
  then have "int 2 \<le> int (length (str_split label ''___''))" by linarith
  then show ?thesis using i True by (auto simp: label_part_def getitem_def)
next
  case False
  then show ?thesis by (simp add: label_part_def)
qed

text \<open>
  C4 (as the code has it). With no metadata record, every label yields a crop and a
  condition, both strings. For a label \<open>A___B\<close> in which no separator begins inside
  \<open>A\<close> (that is, \<open>A\<close> followed by two underscores holds no \<open>___\<close>) and \<open>B\<close> holds no
  separator, the crop is \<open>A\<close> and the condition is \<open>B\<close>, each with its underscores
  replaced by spaces. A label without separator is both crop and condition, unchanged.
\<close>

theorem label_decomposition:
  "(\<exists>crop condition. resolve_names [] label = Inr (JStr crop, JStr condition)) \<and>
   (\<not> str_contains ''___'' (A @ ''__'') \<and> \<not> str_contains ''___'' B \<longrightarrow>
      resolve_names [] (A @ ''___'' @ B) =
        Inr (JStr (replace_char CHR ''_'' CHR '' '' A), JStr (replace_char CHR ''_'' CHR '' '' B))) \<and>
   (\<not> str_contains ''___'' label \<longrightarrow> resolve_names [] label = Inr (JStr label, JStr label))"
proof (intro conjI impI)
  obtain c where c: "label_part label 0 = Inr c" using label_part_total[of 0 label] by auto
  obtain d where d: "label_part label 1 = Inr d" using label_part_total[of 1 label] by auto
  show "\<exists>crop condition. resolve_names [] label = Inr (JStr crop, JStr condition)"
    using c d by (simp add: resolve_names_def)
next
  assume h: "\<not> str_contains ''___'' (A @ ''__'') \<and> \<not> str_contains ''___'' B"
  have "str_split (A @ ''___'' @ B) ''___'' = [A, B]"
    unfolding str_split_def using h split_from_first_sep[of A "[]" B] split_from_no_sep[of "''___''" B "[]"]
    by simp
  then show "resolve_names [] (A @ ''___'' @ B) =
        Inr (JStr (replace_char CHR ''_'' CHR '' '' A), JStr (replace_char CHR ''_'' CHR '' '' B))"
    using contains_append_sep[of A B]
    by (simp add: resolve_names_def label_part_def getitem_def)
next
  assume "\<not> str_contains ''___'' label"
  then show "resolve_names [] label = Inr (JStr label, JStr label)"
    by (simp add: resolve_names_def label_part_def)
qed

theorem label_decomposition_witness:
  "\<not> str_contains ''___'' (''Corn_(maize)'' @ ''__'') \<and> \<not> str_contains ''___'' ''Common_rust_'' \<and>
   resolve_names [] ''Corn_(maize)___Common_rust_'' =
     Inr (JStr ''Corn (maize)'', JStr ''Common rust '') \<and>
   \<not> str_contains ''___'' ''PlantVillage'' \<and>
   resolve_names [] ''PlantVillage'' = Inr (JStr ''PlantVillage'', JStr ''PlantVillage'')"
  using label_decomposition [of "''PlantVillage''" "''Corn_(maize)''" "''Common_rust_''"]
  by (simp add: replace_char_def)

text \<open>
  C4 as the specification words it fails for a label with a second separator:
  \<open>split("___")\<close> cuts at every separator and the code reads parts 0 and 1, so what
  follows the second separator is dropped from the condition.
\<close>

theorem label_decomposition_counterexample:
  "resolve_names [] (''a'' @ ''___'' @ ''b___c'') = Inr (JStr ''a'', JStr ''b'') \<and>
   replace_char CHR ''_'' CHR '' '' ''b___c'' \<noteq> ''b''"
  by (simp add: resolve_names_def label_part_def str_split_def split_from.simps getitem_def
      replace_char_def)

section \<open>The result dictionary\<close>


lemma assemble_Inr_string:
  "assemble py_str dd pc c d conf t = Inr out \<Longrightarrow> \<exists>s. d = JStr s"
  by (cases d) (simp_all add: assemble_def lower_of_def)



lemma assemble_fields:
  assumes "assemble py_str dd pc c d conf t = Inr out"
  shows "json_at [''data'', ''predictedClass''] out = Some (JStr pc)"
    and "json_at [''data'', ''crop''] out = Some c"
    and "json_at [''data'', ''disease''] out = Some d"
    and "json_at [''data'', ''confidence''] out = Some (JFloat (py_round conf 4))"
    and "\<exists>s. d = JStr s \<and> json_at [''data'', ''plantHealth''] out =
           Some (dict_get (map_of dd) ''health_status''
                  (JStr (if str_contains ''healthy'' (str_lower s) then ''Healthy''
                         else ''Diseased'')))"
    and "json_at [''data'', ''recommendations'', ''diagnosis''] out =
           Some (dict_get (map_of dd) ''diagnosis''
                  (JStr (''ML model detected '' @ fmt py_str d @ '' in ''
                         @ fmt py_str c @ '' with ''
                         @ str_float1 (py_round (conf * 100) 1) @ ''% confidence.'')))"
    and "json_at [''data'', ''recommendations'', ''treatment''] out =
           Some (dict_get (map_of dd) ''chemical_treatment''
                  (JList [JStr ''Consult a local agronomist for treatment advice.'']))"
    and "json_at [''data'', ''recommendations'', ''organicTreatment''] out =
           Some (dict_get (map_of dd) ''organic_treatment''
                  (JList [JStr ''Apply neem-based organic pesticide as a general precaution.'']))"
    and "json_at [''data'', ''recommendations'', ''irrigationAdvice''] out =
           Some (dict_get (map_of dd) ''irrigation_advice''
                  (JStr ''Monitor soil moisture; avoid waterlogging.''))"
    and "json_at [''data'', ''recommendations'', ''fertilizerAdvice''] out =
           Some (dict_get (map_of dd) ''fertilizer_advice''
                  (JStr ''Maintain balanced NPK nutrition.''))"
    and "json_at [''data'', ''growthStage'', ''stage''] out =
           Some (dict_get (map_of dd) ''growth_stage'' (JStr ''Unknown''))"
    and "json_at [''data'', ''growthStage'', ''daysToHarvest''] out =
           Some (dict_get (map_of dd) ''days_to_harvest'' (JInt 0))"
    and "json_at [''data'', ''tutorial''] out = Some (dict_get (map_of dd) ''tutorial'' (JList []))"
    and "json_at [''data'', ''soilInsights''] out = Some soilInsights"
    and "json_at [''data'', ''weatherImpact''] out = Some weatherImpact"
proof -
  obtain s where s: "d = JStr s" using assemble_Inr_string[OF assms] by blast
  have out: "out = JObj
            [(''success'', JBool True),
             (''data'', JObj
               [(''modelUsed'', JStr ''crop_disease_model.h5 (Local CNN)''),
                (''predictedClass'', JStr pc),
                (''crop'', c),
                (''disease'', d),
                (''confidence'', JFloat (py_round conf 4)),
                (''plantHealth'',
                   dict_get (map_of dd) ''health_status''
                     (JStr (if str_contains ''healthy'' (str_lower s) then ''Healthy''
                            else ''Diseased''))),
                (''executionTimeMs'', JInt t),
                (''recommendations'', JObj
                  [(''diagnosis'',
                      dict_get (map_of dd) ''diagnosis''
                        (JStr (''ML model detected '' @ fmt py_str d @ '' in ''
                               @ fmt py_str c @ '' with ''
                               @ str_float1 (py_round (conf * 100) 1)
                               @ ''% confidence.''))),
                   (''treatment'',
                      dict_get (map_of dd) ''chemical_treatment''
                        (JList [JStr ''Consult a local agronomist for treatment advice.''])),
                   (''organicTreatment'',
                      dict_get (map_of dd) ''organic_treatment''
                        (JList [JStr ''Apply neem-based organic pesticide as a general precaution.''])),
                   (''irrigationAdvice'',
                      dict_get (map_of dd) ''irrigation_advice''
                        (JStr ''Monitor soil moisture; avoid waterlogging.'')),
                   (''fertilizerAdvice'',
                      dict_get (map_of dd) ''fertilizer_advice''
                        (JStr ''Maintain balanced NPK nutrition.''))]),
                (''growthStage'', JObj
                  [(''stage'', dict_get (map_of dd) ''growth_stage'' (JStr ''Unknown'')),
                   (''daysToHarvest'',
                      dict_get (map_of dd) ''days_to_harvest'' (JInt 0))]),
                (''tutorial'', dict_get (map_of dd) ''tutorial'' (JList [])),
                (''soilInsights'', soilInsights),
                (''weatherImpact'', weatherImpact)])]"
    using assms s by (simp add: assemble_def lower_of_def)
  show "json_at [''data'', ''predictedClass''] out = Some (JStr pc)" unfolding out by simp
  show "json_at [''data'', ''crop''] out = Some c" unfolding out by simp
  show "json_at [''data'', ''disease''] out = Some d" unfolding out by simp
  show "json_at [''data'', ''confidence''] out = Some (JFloat (py_round conf 4))"
    unfolding out by simp
  show "\<exists>s. d = JStr s \<and> json_at [''data'', ''plantHealth''] out =
           Some (dict_get (map_of dd) ''health_status''
                  (JStr (if str_contains ''healthy'' (str_lower s) then ''Healthy''
                         else ''Diseased'')))"
    unfolding out using s by simp
  show "json_at [''data'', ''recommendations'', ''diagnosis''] out =
           Some (dict_get (map_of dd) ''diagnosis''
                  (JStr (''ML model detected '' @ fmt py_str d @ '' in ''
                         @ fmt py_str c @ '' with ''
                         @ str_float1 (py_round (conf * 100) 1) @ ''% confidence.'')))"
    unfolding out by simp
  show "json_at [''data'', ''recommendations'', ''treatment''] out =
           Some (dict_get (map_of dd) ''chemical_treatment''
                  (JList [JStr ''Consult a local agronomist for treatment advice.'']))"
    unfolding out by simp
  show "json_at [''data'', ''recommendations'', ''organicTreatment''] out =
           Some (dict_get (map_of dd) ''organic_treatment''
                  (JList [JStr ''Apply neem-based organic pesticide as a general precaution.'']))"
    unfolding out by simp
  show "json_at [''data'', ''recommendations'', ''irrigationAdvice''] out =
           Some (dict_get (map_of dd) ''irrigation_advice''
                  (JStr ''Monitor soil moisture; avoid waterlogging.''))"
    unfolding out by simp
  show "json_at [''data'', ''recommendations'', ''fertilizerAdvice''] out =
           Some (dict_get (map_of dd) ''fertilizer_advice''
                  (JStr ''Maintain balanced NPK nutrition.''))"
    unfolding out by simp
  show "json_at [''data'', ''growthStage'', ''stage''] out =
           Some (dict_get (map_of dd) ''growth_stage'' (JStr ''Unknown''))"
    unfolding out by simp
  show "json_at [''data'', ''growthStage'', ''daysToHarvest''] out =
           Some (dict_get (map_of dd) ''days_to_harvest'' (JInt 0))"
    unfolding out by simp
  show "json_at [''data'', ''tutorial''] out = Some (dict_get (map_of dd) ''tutorial'' (JList []))"
    unfolding out by simp
  show "json_at [''data'', ''soilInsights''] out = Some soilInsights" unfolding out by simp
  show "json_at [''data'', ''weatherImpact''] out = Some weatherImpact" unfolding out by simp
qed


lemma build_result_Inr:
  assumes "build_result py_str info label conf t = Inr out"
  obtains c d where "resolve_names (dict_get info label []) label = Inr (c, d)"
    and "assemble py_str (dict_get info label []) label c d conf t = Inr out"
  using assms unfolding build_result_def Let_def
  by (auto split: sum.splits prod.splits)


lemma resolve_names_nonempty:
  "dd \<noteq> [] \<Longrightarrow> resolve_names dd label =
     Inr (dict_get (map_of dd) ''crop'' (JStr ''Unknown''),
          dict_get (map_of dd) ''disease'' (JStr ''Unknown''))"
  by (simp add: resolve_names_def)

lemma resolve_names_empty:
  "resolve_names [] label = Inr (c, d) \<Longrightarrow>
   \<exists>cs ds. label_part label 0 = Inr cs \<and> label_part label 1 = Inr ds \<and> c = JStr cs \<and> d = JStr ds"
  by (auto simp: resolve_names_def split: sum.splits)



text \<open>
  C10. In a result built for a label whose metadata record exists and is not empty,
  the crop field is the record's \<open>crop\<close> value, or the literal "Unknown" when the
  record has no such key, and likewise the disease field; the label is not taken apart.
  The parts of the label are used only when the record is absent or empty.
\<close>

theorem record_without_name_reads_Unknown:
  assumes "build_result py_str info label conf t = Inr out"
  shows "(\<forall>r. info label = Some r \<and> r \<noteq> [] \<longrightarrow>
            json_at [''data'', ''crop''] out =
              Some (case map_of r ''crop'' of None \<Rightarrow> JStr ''Unknown'' | Some v \<Rightarrow> v) \<and>
            json_at [''data'', ''disease''] out =
              Some (case map_of r ''disease'' of None \<Rightarrow> JStr ''Unknown'' | Some v \<Rightarrow> v)) \<and>
         (info label = None \<or> info label = Some [] \<longrightarrow>
            (\<exists>c d. label_part label 0 = Inr c \<and> label_part label 1 = Inr d \<and>
               json_at [''data'', ''crop''] out = Some (JStr c) \<and>
               json_at [''data'', ''disease''] out = Some (JStr d)))"
proof -
  let ?dd = "dict_get info label []"
  obtain c d where rn: "resolve_names ?dd label = Inr (c, d)"
    and asm: "assemble py_str ?dd label c d conf t = Inr out"
    using build_result_Inr[OF assms] by blast
  have crop: "json_at [''data'', ''crop''] out = Some c"
    and dis: "json_at [''data'', ''disease''] out = Some d"
    using assemble_fields(2,3)[OF asm] by simp_all
  have a: "\<forall>r. info label = Some r \<and> r \<noteq> [] \<longrightarrow>
            json_at [''data'', ''crop''] out =
              Some (case map_of r ''crop'' of None \<Rightarrow> JStr ''Unknown'' | Some v \<Rightarrow> v) \<and>
            json_at [''data'', ''disease''] out =
              Some (case map_of r ''disease'' of None \<Rightarrow> JStr ''Unknown'' | Some v \<Rightarrow> v)"
  proof (intro allI impI)
    fix r assume r: "info label = Some r \<and> r \<noteq> []"
    then have dd: "?dd = r" by (simp add: dict_get_def)
    have "c = dict_get (map_of r) ''crop'' (JStr ''Unknown'')"
      and "d = dict_get (map_of r) ''disease'' (JStr ''Unknown'')"
      using rn r unfolding dd by (simp_all add: resolve_names_nonempty)
    then show "json_at [''data'', ''crop''] out =
              Some (case map_of r ''crop'' of None \<Rightarrow> JStr ''Unknown'' | Some v \<Rightarrow> v) \<and>
            json_at [''data'', ''disease''] out =
              Some (case map_of r ''disease'' of None \<Rightarrow> JStr ''Unknown'' | Some v \<Rightarrow> v)"
      using crop dis by (simp add: dict_get_def)
  qed
  have b: "info label = None \<or> info label = Some [] \<longrightarrow>
            (\<exists>c d. label_part label 0 = Inr c \<and> label_part label 1 = Inr d \<and>
               json_at [''data'', ''crop''] out = Some (JStr c) \<and>
               json_at [''data'', ''disease''] out = Some (JStr d))"
  proof
    assume "info label = None \<or> info label = Some []"
    then have dd: "?dd = []" by (auto simp: dict_get_def)
    show "\<exists>c d. label_part label 0 = Inr c \<and> label_part label 1 = Inr d \<and>
               json_at [''data'', ''crop''] out = Some (JStr c) \<and>
               json_at [''data'', ''disease''] out = Some (JStr d)"
      using resolve_names_empty[of label c d] rn crop dis unfolding dd by auto
  qed
  show ?thesis using a b by blast
qed

lemma build_result_no_crop_example:
  "\<exists>out. build_result (\<lambda>v. []) [''Tomato___Healthy'' \<mapsto> [(''disease'', JStr ''Early blight'')]]
           ''Tomato___Healthy'' 0.9 7 = Inr out"
  by (simp add: build_result_def dict_get_def resolve_names_def assemble_def lower_of_def)

theorem record_without_name_reads_Unknown_witness:
  "\<exists>out. build_result (\<lambda>v. []) [''Tomato___Healthy'' \<mapsto> [(''disease'', JStr ''Early blight'')]]
           ''Tomato___Healthy'' 0.9 7 = Inr out \<and>
     map_of [(''disease'', JStr ''Early blight'')] ''crop'' = None \<and>
     json_at [''data'', ''crop''] out = Some (JStr ''Unknown'') \<and>
     json_at [''data'', ''disease''] out = Some (JStr ''Early blight'')"
proof -
  obtain out where o: "build_result (\<lambda>v. []) [''Tomato___Healthy'' \<mapsto> [(''disease'', JStr ''Early blight'')]]
           ''Tomato___Healthy'' 0.9 7 = Inr out"
    using build_result_no_crop_example by blast
  show ?thesis
    using o record_without_name_reads_Unknown [OF o] by simp
qed


text \<open>
  C8. When the record of the label has no \<open>health_status\<close>, \<open>plantHealth\<close> is
  "Healthy" if the lowercased condition string contains "healthy" and "Diseased"
  otherwise. The scenario of the specification, scores \<open>[0.9, 0.05, 0.03, 0.01, 0.01]\<close>,
  index map \<open>{0: "Tomato___Healthy"}\<close> and no metadata, resolves to crop "Tomato",
  condition "Healthy" and plantHealth "Healthy".
\<close>

theorem plant_health_from_condition:
  "(build_result py_str info label conf t = Inr out \<and>
    map_of (dict_get info label []) ''health_status'' = None \<longrightarrow>
      (\<exists>condition. json_at [''data'', ''disease''] out = Some (JStr condition) \<and>
         json_at [''data'', ''plantHealth''] out =
           Some (JStr (if str_contains ''healthy'' (str_lower condition) then ''Healthy''
                       else ''Diseased'')))) \<and>
   (\<exists>res. predict_decision tie py_str [0 \<mapsto> ''Tomato___Healthy''] Map.empty
             [0.9, 0.05, 0.03, 0.01, 0.01] t = Inr res \<and>
      json_at [''data'', ''predictedClass''] res = Some (JStr ''Tomato___Healthy'') \<and>
      json_at [''data'', ''crop''] res = Some (JStr ''Tomato'') \<and>
      json_at [''data'', ''disease''] res = Some (JStr ''Healthy'') \<and>
      json_at [''data'', ''plantHealth''] res = Some (JStr ''Healthy''))"
proof (intro conjI impI)
  assume h: "build_result py_str info label conf t = Inr out \<and>
    map_of (dict_get info label []) ''health_status'' = None"
  let ?dd = "dict_get info label []"
  obtain c d where asm: "assemble py_str ?dd label c d conf t = Inr out"
    using build_result_Inr[of py_str info label conf t out] h by blast
  obtain s where s: "d = JStr s"
    and ph: "json_at [''data'', ''plantHealth''] out =
           Some (dict_get (map_of ?dd) ''health_status''
                  (JStr (if str_contains ''healthy'' (str_lower s) then ''Healthy''
                         else ''Diseased'')))"
    using assemble_fields(5)[OF asm] by blast
  have "json_at [''data'', ''disease''] out = Some (JStr s)"
    using assemble_fields(3)[OF asm] s by simp
  moreover have "json_at [''data'', ''plantHealth''] out =
           Some (JStr (if str_contains ''healthy'' (str_lower s) then ''Healthy''
                       else ''Diseased''))"
    using ph h by (simp add: dict_get_def)
  ultimately show "\<exists>condition. json_at [''data'', ''disease''] out = Some (JStr condition) \<and>
         json_at [''data'', ''plantHealth''] out =
           Some (JStr (if str_contains ''healthy'' (str_lower condition) then ''Healthy''
                       else ''Diseased''))"
    by blast
next
  show "\<exists>res. predict_decision tie py_str [0 \<mapsto> ''Tomato___Healthy''] Map.empty
             [0.9, 0.05, 0.03, 0.01, 0.01] t = Inr res \<and>
      json_at [''data'', ''predictedClass''] res = Some (JStr ''Tomato___Healthy'') \<and>
      json_at [''data'', ''crop''] res = Some (JStr ''Tomato'') \<and>
      json_at [''data'', ''disease''] res = Some (JStr ''Healthy'') \<and>
      json_at [''data'', ''plantHealth''] res = Some (JStr ''Healthy'')"
    using predict_decision_tomato[of tie py_str t] by blast
qed

lemma build_result_blight_example:
  "\<exists>out. build_result (\<lambda>v. []) Map.empty ''Potato___Late_BLIGHT'' 0.9 7 = Inr out \<and>
     json_at [''data'', ''disease''] out = Some (JStr ''Late BLIGHT'')"
  by (simp add: build_result_def dict_get_def resolve_names_def label_part_def str_split_def
      split_from.simps getitem_def replace_char_def assemble_def lower_of_def)

theorem plant_health_from_condition_witness:
  "\<exists>out. build_result (\<lambda>v. []) Map.empty ''Potato___Late_BLIGHT'' 0.9 7 = Inr out \<and>
     map_of (dict_get Map.empty ''Potato___Late_BLIGHT'' []) ''health_status'' = None \<and>
     json_at [''data'', ''disease''] out = Some (JStr ''Late BLIGHT'') \<and>
     json_at [''data'', ''plantHealth''] out = Some (JStr ''Diseased'')"
proof -
  obtain out where o: "build_result (\<lambda>v. []) Map.empty ''Potato___Late_BLIGHT'' 0.9 7 = Inr out"
    and d: "json_at [''data'', ''disease''] out = Some (JStr ''Late BLIGHT'')"
    using build_result_blight_example by blast
  have m: "map_of (dict_get Map.empty ''Potato___Late_BLIGHT'' []) ''health_status'' = None"
    by (simp add: dict_get_def)
  have l: "str_lower ''Late BLIGHT'' = ''late blight''" by code_simp
  obtain condition where c: "json_at [''data'', ''disease''] out = Some (JStr condition)"
    and ph: "json_at [''data'', ''plantHealth''] out =
           Some (JStr (if str_contains ''healthy'' (str_lower condition) then ''Healthy''
                       else ''Diseased''))"
    using plant_health_from_condition [of "\<lambda>v. []" Map.empty "''Potato___Late_BLIGHT''" "0.9" 7 out]
      o m by blast
  have "condition = ''Late BLIGHT''" using c d by simp
  then have "json_at [''data'', ''plantHealth''] out = Some (JStr ''Diseased'')"
    using ph l by simp
  then show ?thesis using o m d by blast
qed








section \<open>The tabular mapper\<close>


lemma soil_result_fields:
  "json_at [''data'', ''status''] (soil_result p e) =
     Some (JStr (dict_get status_map p (''Class '' @ str_int p)))"
  "json_at [''data'', ''recommendation''] (soil_result p e) =
     Some (JStr (dict_get rec_map p ''Consult an agronomist.''))"
  "json_at [''data'', ''predictionClass''] (soil_result p e) = Some (JInt p)"
  by (simp_all add: soil_result_def)

lemma predict_soil_emits_result:
  assumes "soil_model_exists env" "soil_imports env = None" "soil_model_load env = None"
    "map_exn (py_float env) (str_split fs '','') = Inr vals"
    "soil_model_predict env vals = Inr p"
  shows "predict_soil env fs = Emitted (soil_result p (soil_elapsed env))"
  using assms by (simp add: predict_soil_def soil_body_def)

text \<open>
  C7. For the class ids 0, 1 and 2 the soil result carries the three fixed pairs of
  status and recommendation. For every other integer it carries the status
  \<open>"Class {id}"\<close> and the recommendation "Consult an agronomist.". The mapping is
  defined for every integer, and once the classifier has returned a class id the run
  emits the result: no step after the prediction can raise.
\<close>

theorem tabular_mapper_total:
  "json_at [''data'', ''status''] (soil_result 0 e) = Some (JStr ''Balanced Soil'') \<and>
   json_at [''data'', ''recommendation''] (soil_result 0 e) =
     Some (JStr ''Soil is well-balanced. Maintain regular composting and pH monitoring.'') \<and>
   json_at [''data'', ''status''] (soil_result 1 e) =
     Some (JStr (''Nutrient Deficient '' @ em_dash @ '' Low Nitrogen / Organic Matter'')) \<and>
   json_at [''data'', ''recommendation''] (soil_result 1 e) =
     Some (JStr ''Apply organic compost or urea to restore nitrogen levels. Consider green manure.'') \<and>
   json_at [''data'', ''status''] (soil_result 2 e) =
     Some (JStr (''Nutrient Deficient '' @ em_dash @ '' Low Phosphorus / Potassium'')) \<and>
   json_at [''data'', ''recommendation''] (soil_result 2 e) =
     Some (JStr ''Apply DAP (Di-ammonium Phosphate) or MOP (Muriate of Potash) as appropriate.'') \<and>
   (p \<notin> {0, 1, 2} \<longrightarrow>
      json_at [''data'', ''status''] (soil_result p e) = Some (JStr (''Class '' @ str_int p)) \<and>
      json_at [''data'', ''recommendation''] (soil_result p e) =
        Some (JStr ''Consult an agronomist.'')) \<and>
   json_at [''data'', ''predictionClass''] (soil_result p e) = Some (JInt p) \<and>
   (soil_model_exists env \<and> soil_imports env = None \<and> soil_model_load env = None \<and>
    map_exn (py_float env) (str_split fs '','') = Inr vals \<and>
    soil_model_predict env vals = Inr p \<longrightarrow>
      predict_soil env fs = Emitted (soil_result p (soil_elapsed env)))"
proof -
  have other: "p \<notin> {0, 1, 2} \<longrightarrow>
      json_at [''data'', ''status''] (soil_result p e) = Some (JStr (''Class '' @ str_int p)) \<and>
      json_at [''data'', ''recommendation''] (soil_result p e) =
        Some (JStr ''Consult an agronomist.'')"
    unfolding soil_result_fields by (simp add: dict_get_def status_map_def rec_map_def)
  have known: "json_at [''data'', ''status''] (soil_result 0 e) = Some (JStr ''Balanced Soil'')"
    "json_at [''data'', ''recommendation''] (soil_result 0 e) =
     Some (JStr ''Soil is well-balanced. Maintain regular composting and pH monitoring.'')"
    "json_at [''data'', ''status''] (soil_result 1 e) =
     Some (JStr (''Nutrient Deficient '' @ em_dash @ '' Low Nitrogen / Organic Matter''))"
    "json_at [''data'', ''recommendation''] (soil_result 1 e) =
     Some (JStr ''Apply organic compost or urea to restore nitrogen levels. Consider green manure.'')"
    "json_at [''data'', ''status''] (soil_result 2 e) =
     Some (JStr (''Nutrient Deficient '' @ em_dash @ '' Low Phosphorus / Potassium''))"
    "json_at [''data'', ''recommendation''] (soil_result 2 e) =
     Some (JStr ''Apply DAP (Di-ammonium Phosphate) or MOP (Muriate of Potash) as appropriate.'')"
    unfolding soil_result_fields by (simp_all add: dict_get_def status_map_def rec_map_def)
  show ?thesis
    using known other soil_result_fields(3)[of p e] predict_soil_emits_result[of env fs vals p]
    by blast
qed

lemma str_int_99: "str_int 99 = ''99''"
  by code_simp

theorem tabular_mapper_total_witness:
  "(99::int) \<notin> {0, 1, 2} \<and>
   json_at [''data'', ''status''] (soil_result 99 12) = Some (JStr ''Class 99'') \<and>
   json_at [''data'', ''recommendation''] (soil_result 99 12) =
     Some (JStr ''Consult an agronomist.'')"
proof -
  have h: "(99::int) \<notin> {0, 1, 2}" by simp
  have "json_at [''data'', ''status''] (soil_result 99 12) = Some (JStr (''Class '' @ str_int 99)) \<and>
      json_at [''data'', ''recommendation''] (soil_result 99 12) =
        Some (JStr ''Consult an agronomist.'')"
    using tabular_mapper_total [of 12 99] h by blast
  then show ?thesis using h by (simp add: str_int_99)
qed


section \<open>Failures at the pipeline boundary\<close>

text \<open>
  C6 (as the code has it). A missing model file, an ImportError raised by the imports
  and a failed download each emit \<open>{success: false, status: "model_error", error}\<close>
  with a fixed prefix before the path or the cause message; every exception of class
  Exception raised inside the guarded body of \<open>predict_soil\<close> or \<open>predict\<close>, an
  unparseable feature string among them, emits the same shape with \<open>str(e)\<close> as the
  error. An exception leaves \<open>predict_soil\<close> exactly when the imports raise something
  that is not an ImportError, or the guarded body raises something that is not an
  Exception (KeyboardInterrupt, SystemExit); likewise \<open>predict\<close>, once the size of the
  model file has been read.
\<close>

theorem failures_emit_model_error:
  "(\<not> soil_model_exists senv \<longrightarrow>
      predict_soil senv fs =
        Emitted (model_error (''Soil model not found: '' @ soil_model_path senv))) \<and>
   (soil_model_exists senv \<and> soil_imports senv = Some (ImportError m) \<longrightarrow>
      predict_soil senv fs = Emitted (model_error (''Missing Python dependency: '' @ m))) \<and>
   (soil_model_exists senv \<and> soil_imports senv = None \<and> soil_body senv fs = Inl e \<and>
    is_Exception e \<longrightarrow>
      predict_soil senv fs = Emitted (model_error (str_exn e))) \<and>
   (soil_model_load senv = None \<and> map_exn (py_float senv) (str_split fs '','') = Inl e \<longrightarrow>
      soil_body senv fs = Inl e) \<and>
   ((\<exists>x. predict_soil senv fs = Escaped x) \<longleftrightarrow>
      soil_model_exists senv \<and>
      ((\<exists>x. soil_imports senv = Some x \<and> (\<forall>m'. x \<noteq> ImportError m')) \<or>
       (soil_imports senv = None \<and> (\<exists>x. soil_body senv fs = Inl x \<and> \<not> is_Exception x)))) \<and>
   (\<not> model_exists ienv \<longrightarrow>
      predict ienv =
        Emitted (model_error (''Model not loaded '' @ em_dash @ '' file not found: ''
                               @ model_path ienv))) \<and>
   (model_exists ienv \<and> model_getsize ienv = None \<and> tf_imports ienv = Some (ImportError m) \<longrightarrow>
      predict ienv =
        Emitted (model_error (''TensorFlow missing: '' @ m
                               @ ''. Run: pip install -r requirements.txt''))) \<and>
   (model_exists ienv \<and> model_getsize ienv = None \<and> tf_imports ienv = None \<and>
    predict_body ienv = Inl e \<and> is_Exception e \<longrightarrow>
      predict ienv = Emitted (model_error (str_exn e))) \<and>
   (model_exists ienv \<and> model_getsize ienv = None \<and> tf_imports ienv = None \<and>
    predict_body ienv = Inr out \<longrightarrow> predict ienv = Emitted out) \<and>
   (model_load ienv = None \<and> (indices_exists ienv \<longrightarrow> (\<exists>items. class_indices ienv = Inr items)) \<and>
    (info_exists ienv \<longrightarrow> (\<exists>info. disease_info_load ienv = Inr info)) \<and>
    download ienv = Some e \<and> is_Exception e \<longrightarrow>
      predict_body ienv = Inr (model_error (''Failed to download image: '' @ str_exn e))) \<and>
   (model_getsize ienv = None \<longrightarrow>
      ((\<exists>x. predict ienv = Escaped x) \<longleftrightarrow>
         model_exists ienv \<and>
         ((\<exists>x. tf_imports ienv = Some x \<and> (\<forall>m'. x \<noteq> ImportError m')) \<or>
          (tf_imports ienv = None \<and> (\<exists>x. predict_body ienv = Inl x \<and> \<not> is_Exception x))))) \<and>
   json_at [''success''] (model_error msg) = Some (JBool False) \<and>
   json_at [''status''] (model_error msg) = Some (JStr ''model_error'') \<and>
   json_at [''error''] (model_error msg) = Some (JStr msg)"
proof -
  have s1: "\<not> soil_model_exists senv \<longrightarrow>
      predict_soil senv fs =
        Emitted (model_error (''Soil model not found: '' @ soil_model_path senv))"
    by (simp add: predict_soil_def)
  have s2: "soil_model_exists senv \<and> soil_imports senv = Some (ImportError m) \<longrightarrow>
      predict_soil senv fs = Emitted (model_error (''Missing Python dependency: '' @ m))"
    by (simp add: predict_soil_def)
  have s3: "soil_model_exists senv \<and> soil_imports senv = None \<and> soil_body senv fs = Inl e \<and>
    is_Exception e \<longrightarrow>
      predict_soil senv fs = Emitted (model_error (str_exn e))"
    by (simp add: predict_soil_def)
  have s4: "soil_model_load senv = None \<and> map_exn (py_float senv) (str_split fs '','') = Inl e \<longrightarrow>
      soil_body senv fs = Inl e"
    by (simp add: soil_body_def)
  have s5: "(\<exists>x. predict_soil senv fs = Escaped x) \<longleftrightarrow>
      soil_model_exists senv \<and>
      ((\<exists>x. soil_imports senv = Some x \<and> (\<forall>m'. x \<noteq> ImportError m')) \<or>
       (soil_imports senv = None \<and> (\<exists>x. soil_body senv fs = Inl x \<and> \<not> is_Exception x)))"
    by (auto simp: predict_soil_def split: option.splits exn.splits sum.splits if_splits)
  have i1: "\<not> model_exists ienv \<longrightarrow>
      predict ienv =
        Emitted (model_error (''Model not loaded '' @ em_dash @ '' file not found: ''
                               @ model_path ienv))"
    by (simp add: predict_def)
  have i2: "model_exists ienv \<and> model_getsize ienv = None \<and> tf_imports ienv = Some (ImportError m) \<longrightarrow>
      predict ienv =
        Emitted (model_error (''TensorFlow missing: '' @ m
                               @ ''. Run: pip install -r requirements.txt''))"
    by (simp add: predict_def)
  have i3: "model_exists ienv \<and> model_getsize ienv = None \<and> tf_imports ienv = None \<and>
    predict_body ienv = Inl e \<and> is_Exception e \<longrightarrow>
      predict ienv = Emitted (model_error (str_exn e))"
    by (simp add: predict_def)
  have i4: "model_exists ienv \<and> model_getsize ienv = None \<and> tf_imports ienv = None \<and>
    predict_body ienv = Inr out \<longrightarrow> predict ienv = Emitted out"
    by (simp add: predict_def)
  have i5: "model_load ienv = None \<and> (indices_exists ienv \<longrightarrow> (\<exists>items. class_indices ienv = Inr items)) \<and>
    (info_exists ienv \<longrightarrow> (\<exists>info. disease_info_load ienv = Inr info)) \<and>
    download ienv = Some e \<and> is_Exception e \<longrightarrow>
      predict_body ienv = Inr (model_error (''Failed to download image: '' @ str_exn e))"
    by (auto simp: predict_body_def)
  have i6: "model_getsize ienv = None \<longrightarrow>
      ((\<exists>x. predict ienv = Escaped x) \<longleftrightarrow>
         model_exists ienv \<and>
         ((\<exists>x. tf_imports ienv = Some x \<and> (\<forall>m'. x \<noteq> ImportError m')) \<or>
          (tf_imports ienv = None \<and> (\<exists>x. predict_body ienv = Inl x \<and> \<not> is_Exception x))))"
    by (auto simp: predict_def split: option.splits exn.splits sum.splits if_splits)
  have sh: "json_at [''success''] (model_error msg) = Some (JBool False)"
    "json_at [''status''] (model_error msg) = Some (JStr ''model_error'')"
    "json_at [''error''] (model_error msg) = Some (JStr msg)"
    by (simp_all add: model_error_def)
  show ?thesis
    by (intro conjI) (rule s1 s2 s3 s4 s5 i1 i2 i3 i4 i5 i6 sh)+
qed

text \<open>
  An unparseable feature string is reported with the message of the ValueError; a
  KeyboardInterrupt while the model runs is not caught.
\<close>

theorem failures_emit_model_error_witness:
  "soil_model_exists \<lparr>soil_model_path = ''models/soil_model.pkl'', soil_model_exists = True,
      soil_imports = None, soil_model_load = None,
      py_float = (\<lambda>s. Inl (Exception (''could not convert string to float: '' @ s))),
      soil_model_predict = (\<lambda>v. Inr 0), soil_elapsed = 3\<rparr> \<and>
   soil_imports \<lparr>soil_model_path = ''models/soil_model.pkl'', soil_model_exists = True,
      soil_imports = None, soil_model_load = None,
      py_float = (\<lambda>s. Inl (Exception (''could not convert string to float: '' @ s))),
      soil_model_predict = (\<lambda>v. Inr 0), soil_elapsed = 3\<rparr> = None \<and>
   soil_body \<lparr>soil_model_path = ''models/soil_model.pkl'', soil_model_exists = True,
      soil_imports = None, soil_model_load = None,
      py_float = (\<lambda>s. Inl (Exception (''could not convert string to float: '' @ s))),
      soil_model_predict = (\<lambda>v. Inr 0), soil_elapsed = 3\<rparr> ''abc,1''
     = Inl (Exception ''could not convert string to float: abc'') \<and>
   is_Exception (Exception ''could not convert string to float: abc'') \<and>
   predict_soil \<lparr>soil_model_path = ''models/soil_model.pkl'', soil_model_exists = True,
      soil_imports = None, soil_model_load = None,
      py_float = (\<lambda>s. Inl (Exception (''could not convert string to float: '' @ s))),
      soil_model_predict = (\<lambda>v. Inr 0), soil_elapsed = 3\<rparr> ''abc,1''
     = Emitted (model_error ''could not convert string to float: abc'') \<and>
   soil_body \<lparr>soil_model_path = ''models/soil_model.pkl'', soil_model_exists = True,
      soil_imports = None, soil_model_load = None, py_float = (\<lambda>s. Inr 1),
      soil_model_predict = (\<lambda>v. Inl (BaseException ''KeyboardInterrupt'')),
      soil_elapsed = 3\<rparr> ''1,2''
     = Inl (BaseException ''KeyboardInterrupt'') \<and>
   (\<exists>x. predict_soil \<lparr>soil_model_path = ''models/soil_model.pkl'', soil_model_exists = True,
      soil_imports = None, soil_model_load = None, py_float = (\<lambda>s. Inr 1),
      soil_model_predict = (\<lambda>v. Inl (BaseException ''KeyboardInterrupt'')),
      soil_elapsed = 3\<rparr> ''1,2'' = Escaped x)"
proof -
  let ?env = "\<lparr>soil_model_path = ''models/soil_model.pkl'', soil_model_exists = True,
      soil_imports = None, soil_model_load = None,
      py_float = (\<lambda>s. Inl (Exception (''could not convert string to float: '' @ s))),
      soil_model_predict = (\<lambda>v. Inr 0), soil_elapsed = 3\<rparr>"
  let ?int = "\<lparr>soil_model_path = ''models/soil_model.pkl'', soil_model_exists = True,
      soil_imports = None, soil_model_load = None, py_float = (\<lambda>s. Inr 1),
      soil_model_predict = (\<lambda>v. Inl (BaseException ''KeyboardInterrupt'')),
      soil_elapsed = 3\<rparr>"
  have b: "soil_body ?env ''abc,1'' = Inl (Exception ''could not convert string to float: abc'')"
    by (simp add: soil_body_def str_split_def split_from.simps)
  have a: "soil_model_exists ?env \<and> soil_imports ?env = None" by simp
  have ie: "is_Exception (Exception ''could not convert string to float: abc'')" by simp
  have h: "soil_model_exists ?env \<and> soil_imports ?env = None \<and>
      soil_body ?env ''abc,1'' = Inl (Exception ''could not convert string to float: abc'') \<and>
      is_Exception (Exception ''could not convert string to float: abc'')"
    using a b ie by (intro conjI) simp_all
  have "predict_soil ?env ''abc,1''
      = Emitted (model_error (str_exn (Exception ''could not convert string to float: abc'')))"
    by (rule mp [OF failures_emit_model_error
          [where senv = ?env and fs = "''abc,1''"
             and e = "Exception ''could not convert string to float: abc''",
           THEN conjunct2, THEN conjunct2, THEN conjunct1] h])
  then have p: "predict_soil ?env ''abc,1''
      = Emitted (model_error ''could not convert string to float: abc'')" by simp
  have b2: "soil_body ?int ''1,2'' = Inl (BaseException ''KeyboardInterrupt'')"
    by (simp add: soil_body_def str_split_def split_from.simps)
  have a2: "soil_model_exists ?int" "soil_imports ?int = None" by simp_all
  have ne: "\<not> is_Exception (BaseException ''KeyboardInterrupt'')" by simp
  have "\<exists>x. soil_body ?int ''1,2'' = Inl x \<and> \<not> is_Exception x"
    using b2 ne by (intro exI [of _ "BaseException ''KeyboardInterrupt''"] conjI)
  then have h2: "soil_model_exists ?int \<and>
      ((\<exists>x. soil_imports ?int = Some x \<and> (\<forall>m'. x \<noteq> ImportError m')) \<or>
       (soil_imports ?int = None \<and> (\<exists>x. soil_body ?int ''1,2'' = Inl x \<and> \<not> is_Exception x)))"
    using a2 by (intro conjI disjI2)
  have esc: "\<exists>x. predict_soil ?int ''1,2'' = Escaped x"
    by (rule iffD2 [OF failures_emit_model_error
          [where senv = ?int and fs = "''1,2''",
           THEN conjunct2, THEN conjunct2, THEN conjunct2, THEN conjunct2, THEN conjunct1] h2])
  show ?thesis
    using a b ie p b2 esc by (intro conjI) simp_all
qed

text \<open>
  C6 as the specification words it fails: the handler around the imports is
  \<open>except ImportError\<close>, so any other exception raised while a dependency is imported
  leaves \<open>predict_soil\<close> and nothing is emitted.
\<close>

theorem import_failure_escapes_counterexample:
  "predict_soil \<lparr>soil_model_path = ''models/soil_model.pkl'', soil_model_exists = True,
      soil_imports = Some (Exception ''numpy.dtype size changed, may indicate binary incompatibility''),
      soil_model_load = None, py_float = (\<lambda>s. Inr 0),
      soil_model_predict = (\<lambda>v. Inr 0), soil_elapsed = 3\<rparr> ''1,2,3''
   = Escaped (Exception ''numpy.dtype size changed, may indicate binary incompatibility'')"
  by (simp add: predict_soil_def)

end
